theory Spec2Isabelle
  imports Main
begin

section \<open>Python values\<close>

text \<open>
  The repository is a thin layer over the botpy SDK: \<^verbatim>\<open>callback.py\<close> (the classes
  \<^verbatim>\<open>Session\<close> and \<^verbatim>\<open>Callback\<close>), \<^verbatim>\<open>database.py\<close> (the class \<^verbatim>\<open>Database\<close>) and
  \<^verbatim>\<open>error.py\<close>. Each method becomes a HOL function of the same name. What a method
  does besides returning a value is explicit: an exception is the \<open>Inl\<close> side of
  a sum, the SDK client and the MySQL server are states that are passed in and
  returned.

  A Python \<^verbatim>\<open>str\<close> is a \<open>string\<close> whose characters are read as the code points
  U+0000 to U+00FF.
\<close>

subsection \<open>\<^verbatim>\<open>str.strip()\<close>, \<^verbatim>\<open>str.split()\<close>, \<^verbatim>\<open>str.startswith\<close>\<close>

text \<open>The code points below 256 that Python's \<^verbatim>\<open>str.isspace\<close> accepts.\<close>

definition whitespace :: "char list" where
  "whitespace =
     [CHR 0x09, CHR 0x0A, CHR 0x0B, CHR 0x0C, CHR 0x0D,
      CHR 0x1C, CHR 0x1D, CHR 0x1E, CHR 0x1F, CHR 0x20, CHR 0x85, CHR 0xA0]"

definition isspace :: "char \<Rightarrow> bool" where
  "isspace c = (c \<in> set whitespace)"

text \<open>\<^verbatim>\<open>s.strip()\<close>: leading and trailing whitespace removed.\<close>

definition str_strip :: "string \<Rightarrow> string" where
  "str_strip s = rev (dropWhile isspace (rev (dropWhile isspace s)))"

text \<open>
  \<^verbatim>\<open>s.split()\<close>: the maximal runs of non-whitespace characters, in order.
  \<open>split_from w s\<close> scans \<open>s\<close> with \<open>w\<close> the word read so far.
\<close>

fun split_from :: "string \<Rightarrow> string \<Rightarrow> string list" where
  "split_from w [] = (if w = [] then [] else [w])"
| "split_from w (c # cs) =
     (if isspace c then (if w = [] then split_from [] cs else w # split_from [] cs)
      else split_from (w @ [c]) cs)"

definition str_split :: "string \<Rightarrow> string list" where
  "str_split s = split_from [] s"

text \<open>\<^verbatim>\<open>s.startswith(p)\<close>.\<close>

definition str_startswith :: "string \<Rightarrow> string \<Rightarrow> bool" where
  "str_startswith s p = (take (length p) s = p)"

subsection \<open>Exceptions (\<^verbatim>\<open>error.py\<close>)\<close>

text \<open>
  Every class of \<^verbatim>\<open>error.py\<close> derives from \<^verbatim>\<open>BaseError(msg, code)\<close>. The
  model keeps the class and the numeric code; the message texts are left out.
  \<open>RuntimeError e\<close> is \<^verbatim>\<open>RuntimeError(e)\<close>, the wrapper that the
  \<^verbatim>\<open>except Exception as e: raise RuntimeError(e) from None\<close> clauses build. The other
  constructors are the built-in exceptions the code can meet, and
  \<open>SDKError\<close> and \<open>MySQLError\<close> what the two collaborators raise.
\<close>

datatype exn =
    EmptyContentError int
  | ContentTypeError int
  | UrlError int
  | IncompatibilityError int
  | BindCommandError int
  | RuntimeError exn
  | PyTypeError
  | PyNameError string
  | PyKeyError string
  | PyAttributeError string
  | SDKError string
  | MySQLError string

subsection \<open>The SDK's message objects\<close>

text \<open>
  \<^verbatim>\<open>botpy.message\<close> is not part of the repository; the records hold the
  attributes that the repository reads, typed as the SDK annotates them.
  \<open>author_id\<close>, \<open>member_openid\<close> and \<open>user_openid\<close> are the attributes of
  \<^verbatim>\<open>msg_obj.author\<close>.

  \<open>MessageObj k m\<close> is an instance of the SDK's class \<^verbatim>\<open>Message\<close> or of a
  class derived from it: \<open>k\<close> is the name of the instance's own class
  (\<^verbatim>\<open>type(x).__name__\<close>) and \<open>m\<close> holds its attributes. For an instance of
  \<^verbatim>\<open>Message\<close> itself \<open>k\<close> is \<open>''Message''\<close>; for an instance of
  \<^verbatim>\<open>class VipMessage(Message)\<close> it is \<open>''VipMessage''\<close>. Python's
  \<^verbatim>\<open>isinstance(x, Message)\<close> holds for all of them, whatever the name.
  \<open>GroupMessageObj\<close> and \<open>C2CMessageObj\<close> are read the same way. \<open>OtherObj k\<close>
  is a value that is an instance of none of the three classes, \<open>k\<close> the name
  of its class; it has none of the attributes.
\<close>

record BaseMessage =
  content :: string
  msg_id :: string
  timestamp :: string

record Message = BaseMessage +
  channel_id :: string
  author_id :: string
  author_avatar :: string

record GroupMessage = BaseMessage +
  group_openid :: string
  member_openid :: string

record C2CMessage = BaseMessage +
  user_openid :: string

datatype py_obj =
    MessageObj string Message
  | GroupMessageObj string GroupMessage
  | C2CMessageObj string C2CMessage
  | OtherObj string

text \<open>\<^verbatim>\<open>type(x).__name__\<close>.\<close>

fun type_name :: "py_obj \<Rightarrow> string" where
  "type_name (MessageObj k m) = k"
| "type_name (GroupMessageObj k g) = k"
| "type_name (C2CMessageObj k c) = k"
| "type_name (OtherObj k) = k"

fun isinstance_Message :: "py_obj \<Rightarrow> bool" where
  "isinstance_Message (MessageObj k m) = True"
| "isinstance_Message x = False"

fun isinstance_GroupMessage :: "py_obj \<Rightarrow> bool" where
  "isinstance_GroupMessage (GroupMessageObj k g) = True"
| "isinstance_GroupMessage x = False"

fun isinstance_C2CMessage :: "py_obj \<Rightarrow> bool" where
  "isinstance_C2CMessage (C2CMessageObj k c) = True"
| "isinstance_C2CMessage x = False"

text \<open>\<^verbatim>\<open>x.content\<close>: an \<^verbatim>\<open>AttributeError\<close> on a value that has no such attribute.\<close>

fun attr_content :: "py_obj \<Rightarrow> exn + string" where
  "attr_content (MessageObj k m) = Inr (content m)"
| "attr_content (GroupMessageObj k g) = Inr (content g)"
| "attr_content (C2CMessageObj k c) = Inr (content c)"
| "attr_content (OtherObj k) = Inl (PyAttributeError ''content'')"

section \<open>The message facade: \<^verbatim>\<open>Callback\<close>\<close>

text \<open>
  \<^verbatim>\<open>Callback.__init__\<close> stores \<^verbatim>\<open>msg_type\<close>, \<^verbatim>\<open>msg_obj\<close>, \<^verbatim>\<open>api\<close>,
  \<^verbatim>\<open>_database\<close> and \<^verbatim>\<open>bot_appid\<close>. \<^verbatim>\<open>api\<close> and \<^verbatim>\<open>_database\<close> are references to
  the SDK client and to the store; the model passes the state of both
  explicitly (\<open>transport\<close> and \<open>database\<close> below), so the record keeps the
  three remaining attributes.
\<close>

record Callback =
  msg_type :: string
  msg_obj :: py_obj
  bot_appid :: "string option"

text \<open>The values that travel through the router: arguments, parameters, outcomes.\<close>

datatype py_value =
    PNone
  | PBool bool
  | PInt int
  | PStr string
  | PList "string list"
  | PCallback Callback

text \<open>Python's truth value of an object; a \<^verbatim>\<open>Callback\<close> defines neither
  \<^verbatim>\<open>__bool__\<close> nor \<^verbatim>\<open>__len__\<close> and is true.\<close>

fun truthy :: "py_value \<Rightarrow> bool" where
  "truthy PNone = False"
| "truthy (PBool b) = b"
| "truthy (PInt i) = (i \<noteq> 0)"
| "truthy (PStr s) = (s \<noteq> [])"
| "truthy (PList l) = (l \<noteq> [])"
| "truthy (PCallback c) = True"

text \<open>\<^verbatim>\<open>a or b\<close>.\<close>

definition py_or :: "py_value \<Rightarrow> py_value \<Rightarrow> py_value" where
  "py_or a b = (if truthy a then a else b)"

text \<open>The dictionary \<^verbatim>\<open>TYPE\<close> (here \<open>TYPE_dict\<close>) of \<^verbatim>\<open>Callback.__init__\<close>.\<close>

definition TYPE_dict :: "(string \<times> string) list" where
  "TYPE_dict = [(''Message'', ''channel''), (''GroupMessage'', ''group''), (''C2CMessage'', ''c2c'')]"

definition Callback_init :: "py_obj \<Rightarrow> string option \<Rightarrow> exn + Callback" where
  "Callback_init obj appid =
     (if \<not> (isinstance_GroupMessage obj \<or> isinstance_Message obj \<or> isinstance_C2CMessage obj)
      then Inl (ContentTypeError 400)
      else (case map_of TYPE_dict (type_name obj) of
              None \<Rightarrow> Inl (PyKeyError (type_name obj))
            | Some t \<Rightarrow> Inr \<lparr>msg_type = t, msg_obj = obj, bot_appid = appid\<rparr>))"

text \<open>
  \<^verbatim>\<open>Callback.command(prefix, sep_params)\<close>. The whole body stands in a
  \<^verbatim>\<open>try\<close> whose handler wraps any exception in a \<^verbatim>\<open>RuntimeError\<close>.
\<close>

definition command :: "Callback \<Rightarrow> string \<Rightarrow> bool \<Rightarrow> exn + py_value" where
  "command self prefix sep_params =
     (case attr_content (msg_obj self) of
        Inl e \<Rightarrow> Inl (RuntimeError e)
      | Inr c \<Rightarrow>
          (let message = str_strip c in
           if str_startswith message prefix \<and> sep_params
           then (let handle_message = str_strip (drop (length prefix) message)
                 in Inr (PList (str_split handle_message)))
           else Inr (PStr message)))"

section \<open>The command router: \<^verbatim>\<open>Session\<close>\<close>

text \<open>
  A handler is an asynchronous Python callable invoked as
  \<^verbatim>\<open>await func(*args, **kwargs)\<close>. Awaits run one after the other on one
  scheduler, so a call is a function of the positional arguments, the keyword
  dictionary and the state \<open>'w\<close> of everything the callable can touch; it
  returns a value or raises, and leaves a new state.
\<close>

type_synonym 'w func =
  "py_value list \<Rightarrow> (string \<rightharpoonup> py_value) \<Rightarrow> 'w \<Rightarrow> (exn + py_value) \<times> 'w"

text \<open>\<^verbatim>\<open>kwargs.get(k)\<close>.\<close>

definition dict_get :: "(string \<rightharpoonup> py_value) \<Rightarrow> string \<Rightarrow> py_value" where
  "dict_get kwargs k = (case kwargs k of None \<Rightarrow> PNone | Some v \<Rightarrow> v)"

record 'w Session =
  bind_function :: "'w func list"

definition Session_init :: "'w Session" where
  "Session_init = \<lparr>bind_function = []\<rparr>"

definition get_bind :: "'w Session \<Rightarrow> 'w func list" where
  "get_bind self = bind_function self"

text \<open>
  The first loop of \<^verbatim>\<open>wrapper\<close>:
  \<^verbatim>\<open>for limit in limitation: if limit == callback.msg_type: return False\<close>.
  The value is \<open>True\<close> when the loop leaves the wrapper.
\<close>

fun limitation_loop :: "string list \<Rightarrow> Callback \<Rightarrow> bool" where
  "limitation_loop [] callback = False"
| "limitation_loop (limit # limitation) callback =
     (if limit = msg_type callback then True else limitation_loop limitation callback)"

text \<open>
  The inner loop \<^verbatim>\<open>for command in commands\<close> for one prefix. \<open>Some r\<close> is a
  \<^verbatim>\<open>return\<close> (or a raise) out of the wrapper, \<open>None\<close> the end of the loop.
\<close>

fun command_loop ::
  "Callback \<Rightarrow> 'w func \<Rightarrow> py_value list \<Rightarrow> (string \<rightharpoonup> py_value) \<Rightarrow> string \<Rightarrow> string list \<Rightarrow> 'w
     \<Rightarrow> ((exn + py_value) \<times> 'w) option" where
  "command_loop callback func args kwargs prefix [] w = None"
| "command_loop callback func args kwargs prefix (c # commands) w =
     (case command callback (prefix @ c) True of
        Inl e \<Rightarrow> Some (Inl e, w)
      | Inr cmd \<Rightarrow>
          (case cmd of
             PList l \<Rightarrow> Some (func args (kwargs(''params'' \<mapsto> py_or cmd (PStr ''''))) w)
           | _ \<Rightarrow> command_loop callback func args kwargs prefix commands w))"

text \<open>The outer loop \<^verbatim>\<open>for prefix in prefixes\<close> and the final \<^verbatim>\<open>return False\<close>.\<close>

fun prefix_loop ::
  "Callback \<Rightarrow> 'w func \<Rightarrow> py_value list \<Rightarrow> (string \<rightharpoonup> py_value) \<Rightarrow> string list \<Rightarrow> string list \<Rightarrow> 'w
     \<Rightarrow> (exn + py_value) \<times> 'w" where
  "prefix_loop callback func args kwargs commands [] w = (Inr (PBool False), w)"
| "prefix_loop callback func args kwargs commands (prefix # prefixes) w =
     (case command_loop callback func args kwargs prefix commands w of
        Some r \<Rightarrow> r
      | None \<Rightarrow> prefix_loop callback func args kwargs commands prefixes w)"

text \<open>
  The closure \<^verbatim>\<open>wrapper\<close> that \<^verbatim>\<open>Session.bind(*commands, prefixes, limitation)\<close>
  builds around \<^verbatim>\<open>func\<close>.
\<close>

definition wrapper :: "string list \<Rightarrow> string list \<Rightarrow> string list \<Rightarrow> 'w func \<Rightarrow> 'w func" where
  "wrapper commands prefixes limitation func args kwargs w =
     (case py_or (dict_get kwargs ''msg_obj'') (dict_get kwargs ''callback'') of
        PNone \<Rightarrow> (Inl (BindCommandError 100), w)
      | PCallback callback \<Rightarrow>
          if limitation_loop limitation callback then (Inr (PBool False), w)
          else prefix_loop callback func args kwargs commands prefixes w
      | _ \<Rightarrow> (Inl (BindCommandError 100), w))"

text \<open>The default values of \<^verbatim>\<open>prefixes\<close> and \<^verbatim>\<open>limitation\<close>.\<close>

definition default_prefixes :: "string list" where
  "default_prefixes = [''/'', '''']"

definition default_limitation :: "string list" where
  "default_limitation = []"

text \<open>
  \<^verbatim>\<open>Session.bind(...)(func)\<close>: the wrapper is appended to the session's list
  and returned.
\<close>

definition bind ::
  "string list \<Rightarrow> string list \<Rightarrow> string list \<Rightarrow> 'w func \<Rightarrow> 'w Session \<Rightarrow> 'w func \<times> 'w Session" where
  "bind commands prefixes limitation func self =
     (wrapper commands prefixes limitation func,
      self\<lparr>bind_function := bind_function self @ [wrapper commands prefixes limitation func]\<rparr>)"

text \<open>
  \<^verbatim>\<open>Callback.reduce(session, callback)\<close>. The argument \<^verbatim>\<open>session\<close> is a
  \<^verbatim>\<open>Session\<close>, a list (whose items need not be callable) or anything else.
\<close>

datatype 'w py_item = Callable "'w func" | NotCallable py_value

datatype 'w session_arg =
    SessionArg "'w Session"
  | ListArg "'w py_item list"
  | OtherArg py_value

fun reduce_loop :: "'w py_item list \<Rightarrow> Callback \<Rightarrow> 'w \<Rightarrow> (exn + bool) \<times> 'w" where
  "reduce_loop [] callback w = (Inr False, w)"
| "reduce_loop (NotCallable v # func_list) callback w = reduce_loop func_list callback w"
| "reduce_loop (Callable func # func_list) callback w =
     (case func [] [''msg_obj'' \<mapsto> PCallback callback] w of
        (Inl e, w') \<Rightarrow> (Inl e, w')
      | (Inr v, w') \<Rightarrow> if truthy v then (Inr True, w') else reduce_loop func_list callback w')"

definition reduce :: "Callback \<Rightarrow> 'w session_arg \<Rightarrow> Callback option \<Rightarrow> 'w \<Rightarrow> (exn + bool) \<times> 'w" where
  "reduce self session callback w =
     (let callback = (case callback of None \<Rightarrow> self | Some c \<Rightarrow> c) in
      case session of
        SessionArg s \<Rightarrow> reduce_loop (map Callable (get_bind s)) callback w
      | ListArg func_list \<Rightarrow> reduce_loop func_list callback w
      | OtherArg v \<Rightarrow> (Inl PyTypeError, w))"

section \<open>Sending: the transport and the \<^verbatim>\<open>send\<close> methods\<close>

text \<open>
  The SDK client \<^verbatim>\<open>self.api\<close> is outside the repository. Its five operations
  that the repository awaits are the constructors of \<open>api_request\<close>, with the
  keyword arguments in this order:
  \<^item> \<open>post_message channel_id content image msg_id\<close>,
  \<^item> \<open>post_group_message group_openid msg_type content msg_id msg_seq media\<close>,
  \<^item> \<open>post_c2c_message openid msg_type content msg_id msg_seq media\<close>,
  \<^item> \<open>post_group_file group_openid file_type url\<close>,
  \<^item> \<open>post_c2c_file openid file_type url\<close>;

  an argument that a call site does not pass is \<open>None\<close>. The client is a
  recording stub: \<open>calls\<close> lists the requests issued so far, oldest first, and
  \<open>reply\<close> decides from them what the next request returns or raises.
\<close>

datatype api_request =
    post_message string string "string option" string
  | post_group_message string int string string int "string option"
  | post_c2c_message string int string string int "string option"
  | post_group_file string int string
  | post_c2c_file string int string

record transport =
  calls :: "api_request list"
  reply :: "api_request list \<Rightarrow> api_request \<Rightarrow> exn + string"

definition await_api :: "api_request \<Rightarrow> transport \<Rightarrow> (exn + string) \<times> transport" where
  "await_api r t = (reply t (calls t) r, t\<lparr>calls := calls t @ [r]\<rparr>)"

subsection \<open>The default sequence numbers\<close>

text \<open>
  \<^verbatim>\<open>seq: int = randint(0, 1000000)\<close> stands in the signature of \<^verbatim>\<open>send\<close>, and
  \<^verbatim>\<open>randint(1, 1000000)\<close> in those of \<^verbatim>\<open>_send_media\<close>, \<^verbatim>\<open>send_image\<close>,
  \<^verbatim>\<open>send_silk\<close> and \<^verbatim>\<open>send_video\<close>. Python evaluates a default when the
  \<^verbatim>\<open>def\<close> statement runs, that is once, while the class body is executed.
  \<open>class_Callback\<close> is that execution: it draws the five numbers from the
  generator, whose step is \<open>draw\<close>. The methods receive the record of defaults;
  none of them has the generator.
\<close>

record defaults =
  send_seq :: int
  send_media_seq :: int
  send_image_seq :: int
  send_silk_seq :: int
  send_video_seq :: int

definition randint :: "('r \<Rightarrow> nat \<times> 'r) \<Rightarrow> int \<Rightarrow> int \<Rightarrow> 'r \<Rightarrow> int \<times> 'r" where
  "randint draw a b r = (case draw r of (n, r') \<Rightarrow> (a + int (n mod nat (b - a + 1)), r'))"

definition class_Callback :: "('r \<Rightarrow> nat \<times> 'r) \<Rightarrow> 'r \<Rightarrow> defaults \<times> 'r" where
  "class_Callback draw r0 =
     (case randint draw 0 1000000 r0 of (s1, r1) \<Rightarrow>
      case randint draw 1 1000000 r1 of (s2, r2) \<Rightarrow>
      case randint draw 1 1000000 r2 of (s3, r3) \<Rightarrow>
      case randint draw 1 1000000 r3 of (s4, r4) \<Rightarrow>
      case randint draw 1 1000000 r4 of (s5, r5) \<Rightarrow>
        (\<lparr>send_seq = s1, send_media_seq = s2, send_image_seq = s3,
          send_silk_seq = s4, send_video_seq = s5\<rparr>, r5))"

text \<open>An omitted argument takes the default.\<close>

definition arg_or :: "'a option \<Rightarrow> 'a \<Rightarrow> 'a" where
  "arg_or a dflt = (case a of None \<Rightarrow> dflt | Some v \<Rightarrow> v)"

subsection \<open>\<^verbatim>\<open>Callback.send\<close>\<close>

text \<open>
  The handlers of \<^verbatim>\<open>send\<close>: \<^verbatim>\<open>except ContentTypeError: raise\<close>, then
  \<^verbatim>\<open>except Exception as e: raise RuntimeError(e) from None\<close>.
\<close>

fun send_except :: "exn \<Rightarrow> exn" where
  "send_except (ContentTypeError c) = ContentTypeError c"
| "send_except e = RuntimeError e"

text \<open>
  \<^verbatim>\<open>send\<close> returns the pair \<^verbatim>\<open>(200, text)\<close>; the model returns the number.
  The content is a \<^verbatim>\<open>str\<close>, so \<^verbatim>\<open>str(content)\<close> is the content.
\<close>

definition send :: "defaults \<Rightarrow> Callback \<Rightarrow> string \<Rightarrow> int option \<Rightarrow> transport \<Rightarrow> (exn + int) \<times> transport" where
  "send d self content' seq_arg t =
     (let seq = arg_or seq_arg (send_seq d) in
      if length content' = 0 then (Inl (EmptyContentError 200), t)
      else
        (case msg_obj self of
           MessageObj k m \<Rightarrow>
             (case await_api (post_message (channel_id m) content' None (msg_id m)) t of
                (Inl e, t') \<Rightarrow> (Inl (send_except e), t')
              | (Inr r, t') \<Rightarrow> (Inr 200, t'))
         | GroupMessageObj k g \<Rightarrow>
             (case await_api (post_group_message (group_openid g) 0 content' (msg_id g) seq None) t of
                (Inl e, t') \<Rightarrow> (Inl (send_except e), t')
              | (Inr r, t') \<Rightarrow> (Inr 200, t'))
         | C2CMessageObj k c \<Rightarrow>
             (case await_api (post_c2c_message (user_openid c) 0 content' (msg_id c) seq None) t of
                (Inl e, t') \<Rightarrow> (Inl (send_except e), t')
              | (Inr r, t') \<Rightarrow> (Inr 200, t'))
         | OtherObj n \<Rightarrow> (Inl (send_except (ContentTypeError 500)), t)))"

subsection \<open>\<^verbatim>\<open>Callback._send_media\<close> and the three media methods\<close>

text \<open>
  The handlers of \<^verbatim>\<open>_send_media\<close>:
  \<^verbatim>\<open>except (ContentTypeError, IncompatibilityError): raise\<close>, then
  \<^verbatim>\<open>except Exception as e: raise RuntimeError(e) from None\<close>.
\<close>

fun send_media_except :: "exn \<Rightarrow> exn" where
  "send_media_except (ContentTypeError c) = ContentTypeError c"
| "send_media_except (IncompatibilityError c) = IncompatibilityError c"
| "send_media_except e = RuntimeError e"

text \<open>
  In the channel branch the call is written
  \<^verbatim>\<open>self.api.post_message(channel_id=..., content=str(content), image=url, msg_id=...)\<close>.
  No name \<^verbatim>\<open>url\<close> is bound in the method or in the module (the parameter is
  \<^verbatim>\<open>media_url\<close>), so evaluating the argument list raises \<^verbatim>\<open>NameError\<close>
  before \<^verbatim>\<open>post_message\<close> is entered.
\<close>

definition send_media ::
  "defaults \<Rightarrow> Callback \<Rightarrow> string \<Rightarrow> int \<Rightarrow> string \<Rightarrow> int option \<Rightarrow> transport \<Rightarrow> (exn + unit) \<times> transport" where
  "send_media d self media_url media_type content' seq_arg t =
     (let seq = arg_or seq_arg (send_media_seq d) in
      case msg_obj self of
        MessageObj k m \<Rightarrow>
          if media_type \<in> set [2, 3] then (Inl (send_media_except (IncompatibilityError 500)), t)
          else (Inl (send_media_except (PyNameError ''url'')), t)
      | GroupMessageObj k g \<Rightarrow>
          (case await_api (post_group_file (group_openid g) media_type media_url) t of
             (Inl e, t1) \<Rightarrow> (Inl (send_media_except e), t1)
           | (Inr media, t1) \<Rightarrow>
               (case await_api (post_group_message (group_openid g) 7 content' (msg_id g) seq (Some media)) t1 of
                  (Inl e, t2) \<Rightarrow> (Inl (send_media_except e), t2)
                | (Inr r, t2) \<Rightarrow> (Inr (), t2)))
      | C2CMessageObj k c \<Rightarrow>
          (case await_api (post_c2c_file (user_openid c) media_type media_url) t of
             (Inl e, t1) \<Rightarrow> (Inl (send_media_except e), t1)
           | (Inr media, t1) \<Rightarrow>
               (case await_api (post_c2c_message (user_openid c) 7 content' (msg_id c) seq (Some media)) t1 of
                  (Inl e, t2) \<Rightarrow> (Inl (send_media_except e), t2)
                | (Inr r, t2) \<Rightarrow> (Inr (), t2)))
      | OtherObj n \<Rightarrow> (Inl (send_media_except (ContentTypeError 500)), t))"

text \<open>
  \<^verbatim>\<open>send_image(image_url, content='', seq)\<close>; an omitted caption is the
  default \<open>''''\<close>.
\<close>

definition send_image ::
  "defaults \<Rightarrow> Callback \<Rightarrow> string \<Rightarrow> string option \<Rightarrow> int option \<Rightarrow> transport \<Rightarrow> (exn + unit) \<times> transport" where
  "send_image d self image_url content_arg seq_arg t =
     (let content' = arg_or content_arg '''';
          seq = arg_or seq_arg (send_image_seq d) in
      if length content' = 0 then (Inl (EmptyContentError 500), t)
      else send_media d self image_url 1 content' (Some seq) t)"

text \<open>\<^verbatim>\<open>send_silk\<close> and \<^verbatim>\<open>send_video\<close> leave the content of \<^verbatim>\<open>_send_media\<close> at its default \<open>''''\<close>.\<close>

definition send_silk ::
  "defaults \<Rightarrow> Callback \<Rightarrow> string \<Rightarrow> int option \<Rightarrow> transport \<Rightarrow> (exn + unit) \<times> transport" where
  "send_silk d self silk_url seq_arg t =
     (let seq = arg_or seq_arg (send_silk_seq d) in
      send_media d self silk_url 3 '''' (Some seq) t)"

definition send_video ::
  "defaults \<Rightarrow> Callback \<Rightarrow> string \<Rightarrow> int option \<Rightarrow> transport \<Rightarrow> (exn + unit) \<times> transport" where
  "send_video d self video_url seq_arg t =
     (let seq = arg_or seq_arg (send_video_seq d) in
      send_media d self video_url 2 '''' (Some seq) t)"

section \<open>The user store: \<^verbatim>\<open>Database\<close>\<close>

subsection \<open>The MySQL server\<close>

text \<open>
  The server and its driver are outside the repository. The model keeps what
  the statements of \<^verbatim>\<open>database.py\<close> can observe. A table of
  \<^verbatim>\<open>_init_database\<close> has the columns \<^verbatim>\<open>userid\<close> (the auto-increment key),
  \<^verbatim>\<open>openid\<close> (unique), \<^verbatim>\<open>message_number\<close> and, for the channel and the group
  table, one more column whose name \<open>extra_column\<close> records; \<open>r_extra\<close> is its
  value in a row. \<open>None\<close> is SQL's \<^verbatim>\<open>NULL\<close>. \<open>statements\<close> lists what the cursor
  and the connection were asked to do, oldest first. A statement on a table
  that was never created fails; column widths, collations and lost
  connections are not modelled.
\<close>

record row =
  r_userid :: int
  r_openid :: "string option"
  r_message_number :: "int option"
  r_extra :: "string option"

record table =
  extra_column :: "string option"
  rows :: "row list"
  auto_increment :: int

datatype sql =
    SELECT string "string option"
  | INSERT string "string list" "string option list"
  | COMMIT

record database =
  tables :: "string \<rightharpoonup> table"
  statements :: "sql list"

text \<open>The text of a decimal number, as the server reads it into an \<^verbatim>\<open>INT\<close> column.\<close>

definition digit :: "char \<Rightarrow> nat option" where
  "digit c =
     (let n = (of_char c :: nat) in if 48 \<le> n \<and> n \<le> 57 then Some (n - 48) else None)"

fun decimal :: "nat \<Rightarrow> string \<Rightarrow> nat option" where
  "decimal n [] = Some n"
| "decimal n (c # cs) = (case digit c of None \<Rightarrow> None | Some k \<Rightarrow> decimal (10 * n + k) cs)"

definition int_column :: "string option \<Rightarrow> exn + int option" where
  "int_column v =
     (case v of
        None \<Rightarrow> Inr None
      | Some s \<Rightarrow>
          (if s = [] then Inl (MySQLError ''Incorrect integer value'')
           else (case decimal 0 s of
                   None \<Rightarrow> Inl (MySQLError ''Incorrect integer value'')
                 | Some n \<Rightarrow> Inr (Some (int n)))))"

text \<open>
  \<^verbatim>\<open>SELECT * from T WHERE openid = %s\<close>: the rows of \<open>T\<close> with that open id
  (a comparison with \<^verbatim>\<open>NULL\<close> selects nothing).
\<close>

definition select_rows :: "string option \<Rightarrow> table \<Rightarrow> row list" where
  "select_rows oid tb = (if oid = None then [] else filter (\<lambda>r. r_openid r = oid) (rows tb))"

text \<open>
  \<^verbatim>\<open>INSERT INTO T (columns) VALUES (values)\<close>: every column must be one of the
  table, \<^verbatim>\<open>openid\<close> must stay unique, and the new row takes the next
  auto-increment key.
\<close>

definition insert_row :: "string list \<Rightarrow> string option list \<Rightarrow> table \<Rightarrow> exn + table" where
  "insert_row columns vals tb =
     (let given = map_of (zip columns vals);
          cell = (\<lambda>c. case given c of None \<Rightarrow> None | Some v \<Rightarrow> v);
          known = [''userid'', ''openid'', ''message_number''] @
                  (case extra_column tb of None \<Rightarrow> [] | Some x \<Rightarrow> [x])
      in
      if length columns \<noteq> length vals then Inl (MySQLError ''Column count does not match value count'')
      else if \<not> list_all (\<lambda>c. c \<in> set known) columns then Inl (MySQLError ''Unknown column'')
      else if cell ''openid'' \<noteq> None \<and> select_rows (cell ''openid'') tb \<noteq> []
        then Inl (MySQLError ''Duplicate entry'')
      else
        (case int_column (cell ''message_number'') of
           Inl e \<Rightarrow> Inl e
         | Inr n \<Rightarrow>
             Inr (tb\<lparr>rows := rows tb @
                        [\<lparr>r_userid = auto_increment tb,
                          r_openid = cell ''openid'',
                          r_message_number = n,
                          r_extra = (case extra_column tb of None \<Rightarrow> None | Some x \<Rightarrow> cell x)\<rparr>],
                     auto_increment := auto_increment tb + 1\<rparr>)))"

text \<open>
  \<^verbatim>\<open>cursor.execute\<close> (and \<^verbatim>\<open>connection.commit\<close>): the statement is recorded.
  The cursor then holds a result set: the selected rows, and with them the
  columns of their table.
\<close>

record result_set =
  rs_extra_column :: "string option"
  rs_rows :: "row list"

definition no_rows :: result_set where
  "no_rows = \<lparr>rs_extra_column = None, rs_rows = []\<rparr>"

fun execute :: "sql \<Rightarrow> database \<Rightarrow> (exn + result_set) \<times> database" where
  "execute (SELECT name oid) db =
     (let db' = db\<lparr>statements := statements db @ [SELECT name oid]\<rparr> in
      case tables db name of
        None \<Rightarrow> (Inl (MySQLError ''Table does not exist''), db')
      | Some tb \<Rightarrow>
          (Inr \<lparr>rs_extra_column = extra_column tb, rs_rows = select_rows oid tb\<rparr>, db'))"
| "execute (INSERT name columns vals) db =
     (let db' = db\<lparr>statements := statements db @ [INSERT name columns vals]\<rparr> in
      case tables db name of
        None \<Rightarrow> (Inl (MySQLError ''Table does not exist''), db')
      | Some tb \<Rightarrow>
          (case insert_row columns vals tb of
             Inl e \<Rightarrow> (Inl e, db')
           | Inr tb' \<Rightarrow> (Inr no_rows, db'\<lparr>tables := (tables db')(name \<mapsto> tb')\<rparr>)))"
| "execute COMMIT db = (Inr no_rows, db\<lparr>statements := statements db @ [COMMIT]\<rparr>)"

text \<open>
  \<^verbatim>\<open>cursor.fetchone()\<close> of a dictionary cursor: the first row with the names
  of its columns, or \<^verbatim>\<open>None\<close>.
\<close>

definition fetchone :: "result_set \<Rightarrow> (string option \<times> row) option" where
  "fetchone rs = (case rs_rows rs of [] \<Rightarrow> None | r # rest \<Rightarrow> Some (rs_extra_column rs, r))"

text \<open>
  The dictionary \<^verbatim>\<open>INTERFACE\<close> gives the column definition that
  \<^verbatim>\<open>_init_database\<close> adds for an audience; the model keeps the column's name.
  \<open>init_database\<close> is \<^verbatim>\<open>CREATE TABLE IF NOT EXISTS\<close>; the elapsed time that the
  Python function returns is left out.
\<close>

definition INTERFACE :: "(string \<times> string option) list" where
  "INTERFACE = [(''channel'', Some ''channel_id''), (''group'', Some ''group_id''), (''c2c'', None)]"

definition init_database :: "string \<Rightarrow> database \<Rightarrow> (exn + unit) \<times> database" where
  "init_database db_type db =
     (case map_of INTERFACE db_type of
        None \<Rightarrow> (Inl (RuntimeError (PyKeyError db_type)), db)
      | Some x \<Rightarrow>
          (case tables db (db_type @ ''_table'') of
             Some tb \<Rightarrow> (Inr (), db)
           | None \<Rightarrow>
               (Inr (), db\<lparr>tables := (tables db)(db_type @ ''_table'' \<mapsto>
                                   \<lparr>extra_column = x, rows = [], auto_increment = 1\<rparr>)\<rparr>)))"

definition init_channel_database :: "database \<Rightarrow> (exn + unit) \<times> database" where
  "init_channel_database db = init_database ''channel'' db"

definition init_group_database :: "database \<Rightarrow> (exn + unit) \<times> database" where
  "init_group_database db = init_database ''group'' db"

definition init_c2c_database :: "database \<Rightarrow> (exn + unit) \<times> database" where
  "init_c2c_database db = init_database ''c2c'' db"

subsection \<open>\<^verbatim>\<open>BaseUser\<close>, \<^verbatim>\<open>get_userinfo\<close>, \<^verbatim>\<open>insert_userinfo\<close>\<close>

record BaseUser =
  userid :: int
  openid :: "string option"
  message_number :: "int option"
  user_channel_id :: "string option"
  user_group_id :: "string option"

text \<open>
  \<^verbatim>\<open>BaseUser(**query)\<close> for a dictionary that the cursor returned: its keys
  are the table's columns, every other attribute keeps its default
  (\<^verbatim>\<open>channel_id=None\<close>, \<^verbatim>\<open>group_id=None\<close>). \<open>user_channel_id\<close> and
  \<open>user_group_id\<close> are the attributes \<^verbatim>\<open>channel_id\<close> and \<^verbatim>\<open>group_id\<close> of
  \<^verbatim>\<open>BaseUser\<close>.
\<close>

fun BaseUser_of_query :: "string option \<times> row \<Rightarrow> BaseUser" where
  "BaseUser_of_query (x, r) =
     \<lparr>userid = r_userid r,
      openid = r_openid r,
      message_number = r_message_number r,
      user_channel_id = (if x = Some ''channel_id'' then r_extra r else None),
      user_group_id = (if x = Some ''group_id'' then r_extra r else None)\<rparr>"

text \<open>The property \<^verbatim>\<open>Callback.user_openid\<close>; it falls off its last \<^verbatim>\<open>elif\<close> with \<^verbatim>\<open>None\<close>.\<close>

definition user_openid_of :: "Callback \<Rightarrow> string option" where
  "user_openid_of self =
     (case msg_obj self of
        MessageObj k m \<Rightarrow> Some (author_id m)
      | GroupMessageObj k g \<Rightarrow> Some (member_openid g)
      | C2CMessageObj k c \<Rightarrow> Some (user_openid c)
      | OtherObj n \<Rightarrow> None)"

definition get_userinfo :: "Callback \<Rightarrow> database \<Rightarrow> (exn + BaseUser option) \<times> database" where
  "get_userinfo callback db =
     (case execute (SELECT (msg_type callback @ ''_table'') (user_openid_of callback)) db of
        (Inl e, db') \<Rightarrow> (Inl (RuntimeError e), db')
      | (Inr result, db') \<Rightarrow>
          (case fetchone result of
             Some query \<Rightarrow> (Inr (Some (BaseUser_of_query query)), db')
           | None \<Rightarrow> (Inr None, db')))"

text \<open>
  The dictionary \<^verbatim>\<open>DB_TYPE\<close> of \<^verbatim>\<open>insert_userinfo\<close>. Its second components are
  \<^verbatim>\<open>lambda obj: obj.channel_id\<close>, \<^verbatim>\<open>lambda obj: obj.group_openid\<close> and, for
  \<^verbatim>\<open>'C2CMessage'\<close>, the string \<^verbatim>\<open>'None'\<close>. \<open>py_call\<close> is the call
  \<^verbatim>\<open>coc_func(callback.msg_obj)\<close>: calling a string raises \<^verbatim>\<open>TypeError\<close>.
\<close>

datatype coc = Lambda "py_obj \<Rightarrow> exn + string" | StrObj string

fun attr_channel_id :: "py_obj \<Rightarrow> exn + string" where
  "attr_channel_id (MessageObj k m) = Inr (channel_id m)"
| "attr_channel_id x = Inl (PyAttributeError ''channel_id'')"

fun attr_group_openid :: "py_obj \<Rightarrow> exn + string" where
  "attr_group_openid (GroupMessageObj k g) = Inr (group_openid g)"
| "attr_group_openid x = Inl (PyAttributeError ''group_openid'')"

definition DB_TYPE :: "(string \<times> string \<times> coc) list" where
  "DB_TYPE =
     [(''Message'', ''channel'', Lambda attr_channel_id),
      (''GroupMessage'', ''group'', Lambda attr_group_openid),
      (''C2CMessage'', ''c2c'', StrObj ''None'')]"

fun py_call :: "coc \<Rightarrow> py_obj \<Rightarrow> exn + string" where
  "py_call (Lambda f) x = f x"
| "py_call (StrObj s) x = Inl PyTypeError"

text \<open>
  \<^verbatim>\<open>insert_userinfo\<close>. The call of \<^verbatim>\<open>get_userinfo\<close> stands before the
  \<^verbatim>\<open>try\<close>; everything after it is inside, and any exception there leaves as
  \<^verbatim>\<open>RuntimeError(e)\<close>. The values of the statement are the open id, the
  string \<^verbatim>\<open>'1'\<close> and, when it is true (not empty), \<^verbatim>\<open>coc_value\<close>.
\<close>

definition insert_userinfo :: "Callback \<Rightarrow> database \<Rightarrow> (exn + BaseUser) \<times> database" where
  "insert_userinfo callback db =
     (case get_userinfo callback db of
        (Inl e, db1) \<Rightarrow> (Inl e, db1)
      | (Inr (Some query_user), db1) \<Rightarrow> (Inr query_user, db1)
      | (Inr None, db1) \<Rightarrow>
          (case map_of DB_TYPE (type_name (msg_obj callback)) of
             None \<Rightarrow> (Inl (RuntimeError (PyKeyError (type_name (msg_obj callback)))), db1)
           | Some (coc_type, coc_func) \<Rightarrow>
               (case py_call coc_func (msg_obj callback) of
                  Inl e \<Rightarrow> (Inl (RuntimeError e), db1)
                | Inr coc_value \<Rightarrow>
                    (let base_column = [''openid'', ''message_number''] @
                                       (if coc_value \<noteq> [] then [coc_type @ ''_id''] else []);
                         base_values = [user_openid_of callback, Some ''1''] @
                                       (if coc_value \<noteq> [] then [Some coc_value] else [])
                     in
                     case execute (INSERT (coc_type @ ''_table'') base_column base_values) db1 of
                       (Inl e, db2) \<Rightarrow> (Inl (RuntimeError e), db2)
                     | (Inr r, db2) \<Rightarrow>
                         (case execute COMMIT db2 of
                            (Inl e, db3) \<Rightarrow> (Inl (RuntimeError e), db3)
                          | (Inr r', db3) \<Rightarrow>
                              (Inr \<lparr>userid = 0,
                                    openid = user_openid_of callback,
                                    message_number = Some 1,
                                    user_channel_id = (if coc_type = ''channel'' then Some coc_value else None),
                                    user_group_id = (if coc_type = ''group'' then Some coc_value else None)\<rparr>,
                               db3))))))"

text \<open>The number of \<^verbatim>\<open>INSERT\<close> statements among those executed.\<close>

fun is_insert :: "sql \<Rightarrow> bool" where
  "is_insert (INSERT name columns vals) = True"
| "is_insert s = False"

definition inserts :: "database \<Rightarrow> nat" where
  "inserts db = length (filter is_insert (statements db))"

section \<open>Vocabulary of the properties\<close>

text \<open>
  \<open>parsed_arguments message pc\<close> is the list that \<^verbatim>\<open>command(pc)\<close> returns for
  a trimmed content \<open>message\<close> that starts with \<open>pc\<close>: what follows \<open>pc\<close>,
  trimmed and split at whitespace. \<open>params_value l\<close> is the value of the
  Python expression \<^verbatim>\<open>l or ''\<close> for a list \<open>l\<close>.
\<close>

definition parsed_arguments :: "string \<Rightarrow> string \<Rightarrow> string list" where
  "parsed_arguments message pc = str_split (str_strip (drop (length pc) message))"

definition params_value :: "string list \<Rightarrow> py_value" where
  "params_value l = (if l = [] then PStr '''' else PList l)"

text \<open>
  Handlers that yield no true outcome:
  \<open>none_truthy func_list callback w\<close> tries the items of \<open>func_list\<close> from
  left to right, each on the state its predecessor left. It is \<open>Some w'\<close> when
  every callable item returned (did not raise) an outcome that is not true,
  \<open>w'\<close> being the state after the last one; it is \<open>None\<close> as soon as an item
  returns a true outcome or raises.
\<close>

fun none_truthy :: "'w py_item list \<Rightarrow> Callback \<Rightarrow> 'w \<Rightarrow> 'w option" where
  "none_truthy [] callback w = Some w"
| "none_truthy (NotCallable v # func_list) callback w = none_truthy func_list callback w"
| "none_truthy (Callable func # func_list) callback w =
     (case func [] [''msg_obj'' \<mapsto> PCallback callback] w of
        (Inl e, w') \<Rightarrow> None
      | (Inr v, w') \<Rightarrow> if truthy v then None else none_truthy func_list callback w')"

section \<open>Concrete inputs\<close>

text \<open>Three inbound messages, one of each class, and the facades built from them.\<close>

definition channel_ping :: Message where
  "channel_ping =
     \<lparr>content = ''/ping'', msg_id = ''m1'', timestamp = ''2024-05-01T10:00:00+08:00'',
      channel_id = ''c1'', author_id = ''u1'', author_avatar = ''https://example.org/u1.png''\<rparr>"

definition group_echo :: GroupMessage where
  "group_echo =
     \<lparr>content = ''/echo hello world'', msg_id = ''m2'', timestamp = ''2024-05-01T10:00:01+08:00'',
      group_openid = ''g1'', member_openid = ''u2''\<rparr>"

definition group_pong :: GroupMessage where
  "group_pong =
     \<lparr>content = ''/pong'', msg_id = ''m3'', timestamp = ''2024-05-01T10:00:02+08:00'',
      group_openid = ''g1'', member_openid = ''u2''\<rparr>"

definition c2c_hello :: C2CMessage where
  "c2c_hello =
     \<lparr>content = ''hello'', msg_id = ''m4'', timestamp = ''2024-05-01T10:00:03+08:00'',
      user_openid = ''u3''\<rparr>"

definition ping_callback :: Callback where
  "ping_callback = \<lparr>msg_type = ''channel'', msg_obj = MessageObj ''Message'' channel_ping, bot_appid = None\<rparr>"

definition echo_callback :: Callback where
  "echo_callback = \<lparr>msg_type = ''group'', msg_obj = GroupMessageObj ''GroupMessage'' group_echo, bot_appid = None\<rparr>"

definition pong_callback :: Callback where
  "pong_callback = \<lparr>msg_type = ''group'', msg_obj = GroupMessageObj ''GroupMessage'' group_pong, bot_appid = None\<rparr>"

definition hello_callback :: Callback where
  "hello_callback = \<lparr>msg_type = ''c2c'', msg_obj = C2CMessageObj ''C2CMessage'' c2c_hello, bot_appid = None\<rparr>"

text \<open>
  Two user functions whose state is a log. \<open>record_params\<close> appends the value
  it received as \<^verbatim>\<open>params\<close> and returns \<^verbatim>\<open>None\<close>; \<open>record_name n\<close>
  appends \<open>n\<close> and returns \<^verbatim>\<open>True\<close>.
\<close>

definition record_params :: "(py_value list) func" where
  "record_params args kwargs w = (Inr PNone, w @ [dict_get kwargs ''params''])"

definition record_name :: "string \<Rightarrow> (string list) func" where
  "record_name n args kwargs w = (Inr (PBool True), w @ [n])"

text \<open>A transport that has issued nothing yet and accepts every request.\<close>

definition accept_all :: "api_request list \<Rightarrow> api_request \<Rightarrow> exn + string" where
  "accept_all history r = Inr ''ok''"

definition idle_transport :: transport where
  "idle_transport = \<lparr>calls = [], reply = accept_all\<rparr>"

text \<open>A generator that never repeats a number: it counts.\<close>

definition counter :: "nat \<Rightarrow> nat \<times> nat" where
  "counter n = (n, Suc n)"

text \<open>A store on which the three \<^verbatim>\<open>init_*_database\<close> methods have run.\<close>

definition empty_store :: database where
  "empty_store = \<lparr>tables = Map.empty, statements = []\<rparr>"

definition fresh_store :: database where
  "fresh_store =
     snd (init_c2c_database (snd (init_group_database (snd (init_channel_database empty_store)))))"

section \<open>Properties of the message facade\<close>

subsection \<open>Construction\<close>

text \<open>
  C7 (what the code does). The constructor admits a value with
  \<^verbatim>\<open>isinstance(msg_obj, (GroupMessage, Message, C2CMessage))\<close> and then takes the
  audience tag from \<^verbatim>\<open>TYPE[type(msg_obj).__name__]\<close>, that is from the name of
  the value's own class.
  \<^item> An instance of \<^verbatim>\<open>Message\<close>, \<^verbatim>\<open>GroupMessage\<close> or \<^verbatim>\<open>C2CMessage\<close> itself
    gets the tag \<^verbatim>\<open>'channel'\<close>, \<^verbatim>\<open>'group'\<close> or \<^verbatim>\<open>'c2c'\<close>, and a value that
    is an instance of none of the three is refused with \<^verbatim>\<open>ContentTypeError\<close>
    (code 400).
  \<^item> An instance of a derived class whose name is not one of the three passes
    the \<^verbatim>\<open>isinstance\<close> test and then fails in the lookup: the constructor
    raises a bare \<^verbatim>\<open>KeyError\<close>, neither a tag nor \<^verbatim>\<open>ContentTypeError\<close>.
  \<^item> Whenever the constructor succeeds, the tag is the one \<^verbatim>\<open>TYPE\<close> gives for
    the class name. For a class that is named \<^verbatim>\<open>Message\<close> but derives from
    \<^verbatim>\<open>GroupMessage\<close> the tag is \<^verbatim>\<open>'channel'\<close>, although every
    \<^verbatim>\<open>isinstance\<close> branch of the other methods treats the value as a group
    message.
\<close>

theorem Callback_init_class_name:
  "Callback_init (MessageObj ''Message'' m) a =
     Inr \<lparr>msg_type = ''channel'', msg_obj = MessageObj ''Message'' m, bot_appid = a\<rparr> \<and>
   Callback_init (GroupMessageObj ''GroupMessage'' g) a =
     Inr \<lparr>msg_type = ''group'', msg_obj = GroupMessageObj ''GroupMessage'' g, bot_appid = a\<rparr> \<and>
   Callback_init (C2CMessageObj ''C2CMessage'' c) a =
     Inr \<lparr>msg_type = ''c2c'', msg_obj = C2CMessageObj ''C2CMessage'' c, bot_appid = a\<rparr> \<and>
   Callback_init (OtherObj k) a = Inl (ContentTypeError 400) \<and>
   (k' \<noteq> ''Message'' \<and> k' \<noteq> ''GroupMessage'' \<and> k' \<noteq> ''C2CMessage'' \<longrightarrow>
      isinstance_Message (MessageObj k' m) \<and>
      Callback_init (MessageObj k' m) a = Inl (PyKeyError k') \<and>
      isinstance_GroupMessage (GroupMessageObj k' g) \<and>
      Callback_init (GroupMessageObj k' g) a = Inl (PyKeyError k') \<and>
      isinstance_C2CMessage (C2CMessageObj k' c) \<and>
      Callback_init (C2CMessageObj k' c) a = Inl (PyKeyError k')) \<and>
   (Callback_init obj a = Inr self \<longrightarrow>
      msg_obj self = obj \<and> map_of TYPE_dict (type_name obj) = Some (msg_type self)) \<and>
   Callback_init (GroupMessageObj ''Message'' g) a =
     Inr \<lparr>msg_type = ''channel'', msg_obj = GroupMessageObj ''Message'' g, bot_appid = a\<rparr> \<and>
   \<not> isinstance_Message (GroupMessageObj ''Message'' g)"
proof -
  have exact: "Callback_init (MessageObj ''Message'' m) a =
     Inr \<lparr>msg_type = ''channel'', msg_obj = MessageObj ''Message'' m, bot_appid = a\<rparr>"
    "Callback_init (GroupMessageObj ''GroupMessage'' g) a =
     Inr \<lparr>msg_type = ''group'', msg_obj = GroupMessageObj ''GroupMessage'' g, bot_appid = a\<rparr>"
    "Callback_init (C2CMessageObj ''C2CMessage'' c) a =
     Inr \<lparr>msg_type = ''c2c'', msg_obj = C2CMessageObj ''C2CMessage'' c, bot_appid = a\<rparr>"
    "Callback_init (OtherObj k) a = Inl (ContentTypeError 400)"
    by (simp_all add: Callback_init_def TYPE_dict_def)
  have derived: "k' \<noteq> ''Message'' \<and> k' \<noteq> ''GroupMessage'' \<and> k' \<noteq> ''C2CMessage'' \<longrightarrow>
      isinstance_Message (MessageObj k' m) \<and>
      Callback_init (MessageObj k' m) a = Inl (PyKeyError k') \<and>
      isinstance_GroupMessage (GroupMessageObj k' g) \<and>
      Callback_init (GroupMessageObj k' g) a = Inl (PyKeyError k') \<and>
      isinstance_C2CMessage (C2CMessageObj k' c) \<and>
      Callback_init (C2CMessageObj k' c) a = Inl (PyKeyError k')"
    by (simp add: Callback_init_def TYPE_dict_def)
  have tag: "Callback_init obj a = Inr self \<longrightarrow>
      msg_obj self = obj \<and> map_of TYPE_dict (type_name obj) = Some (msg_type self)"
  proof
    assume i: "Callback_init obj a = Inr self"
    show "msg_obj self = obj \<and> map_of TYPE_dict (type_name obj) = Some (msg_type self)"
    proof (cases "map_of TYPE_dict (type_name obj)")
      case None
      with i show ?thesis
        by (simp add: Callback_init_def split: if_splits)
    next
      case (Some t)
      with i show ?thesis
        by (auto simp add: Callback_init_def split: if_splits)
    qed
  qed
  have collide: "Callback_init (GroupMessageObj ''Message'' g) a =
     Inr \<lparr>msg_type = ''channel'', msg_obj = GroupMessageObj ''Message'' g, bot_appid = a\<rparr>"
    "\<not> isinstance_Message (GroupMessageObj ''Message'' g)"
    by (simp_all add: Callback_init_def TYPE_dict_def)
  from exact derived tag collide show ?thesis
    by (intro conjI)
qed


theorem Callback_init_class_name_witness:
  "''VipMessage'' \<noteq> ''Message'' \<and> ''VipMessage'' \<noteq> ''GroupMessage'' \<and>
   ''VipMessage'' \<noteq> ''C2CMessage'' \<and>
   isinstance_Message (MessageObj ''VipMessage'' channel_ping) \<and>
   Callback_init (MessageObj ''VipMessage'' channel_ping) None = Inl (PyKeyError ''VipMessage'') \<and>
   Callback_init (GroupMessageObj ''GroupMessage'' group_echo) None = Inr echo_callback \<and>
   map_of TYPE_dict (type_name (GroupMessageObj ''GroupMessage'' group_echo)) =
     Some (msg_type echo_callback)"
proof -
  note t = Callback_init_class_name [where k' = "''VipMessage''" and m = channel_ping and a = None
      and g = group_echo and obj = "GroupMessageObj ''GroupMessage'' group_echo"
      and self = echo_callback]
  have n: "''VipMessage'' \<noteq> ''Message'' \<and> ''VipMessage'' \<noteq> ''GroupMessage'' \<and>
      ''VipMessage'' \<noteq> ''C2CMessage''"
    by simp
  note d = t [THEN conjunct2, THEN conjunct2, THEN conjunct2, THEN conjunct2, THEN conjunct1,
      THEN mp, OF n]
  have 1: "isinstance_Message (MessageObj ''VipMessage'' channel_ping)"
    by (rule d [THEN conjunct1])
  have 2: "Callback_init (MessageObj ''VipMessage'' channel_ping) None = Inl (PyKeyError ''VipMessage'')"
    by (rule d [THEN conjunct2, THEN conjunct1])
  have 3: "Callback_init (GroupMessageObj ''GroupMessage'' group_echo) None = Inr echo_callback"
    unfolding echo_callback_def by (rule t [THEN conjunct2, THEN conjunct1])
  have 4: "map_of TYPE_dict (type_name (GroupMessageObj ''GroupMessage'' group_echo)) =
      Some (msg_type echo_callback)"
    by (rule t [THEN conjunct2, THEN conjunct2, THEN conjunct2, THEN conjunct2, THEN conjunct2,
      THEN conjunct1, THEN mp, OF 3, THEN conjunct2])
  from n 1 2 3 4 show ?thesis
    by (intro conjI) (erule conjunct1, erule conjunct2 [THEN conjunct1],
        erule conjunct2 [THEN conjunct2])
qed

subsection \<open>Sending text\<close>

text \<open>
  C5. Whatever the audience of the \<^verbatim>\<open>Callback\<close>, whatever sequence number is
  passed or left out, and whatever the transport has done so far,
  \<^verbatim>\<open>send\<close> with empty content raises \<^verbatim>\<open>EmptyContentError\<close> (code 200) and
  the transport is as it was: no request was issued.
\<close>

theorem send_empty_content:
  "send d self [] seq_arg t = (Inl (EmptyContentError 200), t)"
  by (simp add: send_def)

theorem send_empty_content_witness:
  "send (fst (class_Callback counter 0)) ping_callback [] None idle_transport =
     (Inl (EmptyContentError 200), idle_transport) \<and>
   calls (snd (send (fst (class_Callback counter 0)) echo_callback [] (Some 7) idle_transport)) = []"
  using send_empty_content [of "fst (class_Callback counter 0)" ping_callback None idle_transport]
    send_empty_content [of "fst (class_Callback counter 0)" echo_callback "Some 7" idle_transport]
  by (simp add: idle_transport_def)

subsection \<open>Sending media\<close>

text \<open>
  C6. For a \<^verbatim>\<open>Callback\<close> that wraps a channel \<^verbatim>\<open>Message\<close>, \<^verbatim>\<open>send_silk\<close> and
  \<^verbatim>\<open>send_video\<close> raise \<^verbatim>\<open>IncompatibilityError\<close> (code 500), and the
  transport is as it was: no request was issued.
\<close>

theorem channel_silk_video_incompatible:
  "msg_obj self = MessageObj k m \<Longrightarrow>
   send_silk d self silk_url seq_arg t = (Inl (IncompatibilityError 500), t) \<and>
   send_video d self video_url seq_arg' t = (Inl (IncompatibilityError 500), t)"
  by (simp add: send_silk_def send_video_def send_media_def)

theorem channel_silk_video_incompatible_witness:
  "msg_obj ping_callback = MessageObj ''Message'' channel_ping \<and>
   send_silk (fst (class_Callback counter 0)) ping_callback ''https://example.org/a.silk'' None idle_transport =
     (Inl (IncompatibilityError 500), idle_transport) \<and>
   send_video (fst (class_Callback counter 0)) ping_callback ''https://example.org/a.mp4'' None idle_transport =
     (Inl (IncompatibilityError 500), idle_transport)"
  using channel_silk_video_incompatible [where self = ping_callback and k = "''Message''"
      and m = channel_ping and d = "fst (class_Callback counter 0)"
      and silk_url = "''https://example.org/a.silk''" and seq_arg = None and t = idle_transport
      and video_url = "''https://example.org/a.mp4''" and seq_arg' = None]
  by (simp add: ping_callback_def)

text \<open>
  C8. For a \<^verbatim>\<open>Callback\<close> that wraps a channel \<^verbatim>\<open>Message\<close>, \<^verbatim>\<open>send_image\<close>
  always ends in an exception and leaves the transport as it was. The channel
  branch of \<^verbatim>\<open>_send_media\<close> with media type 1 raises
  \<^verbatim>\<open>RuntimeError(NameError)\<close> for the unbound name \<^verbatim>\<open>url\<close>, and that is what
  \<^verbatim>\<open>send_image\<close> raises whenever its caption is not empty (with an empty
  caption it raises \<^verbatim>\<open>EmptyContentError\<close> first and never reaches the branch).
\<close>

theorem channel_image_never_sent:
  "msg_obj self = MessageObj k m \<Longrightarrow>
   isl (fst (send_image d self image_url content_arg seq_arg t)) \<and>
   snd (send_image d self image_url content_arg seq_arg t) = t \<and>
   send_media d self image_url 1 c seq_arg t = (Inl (RuntimeError (PyNameError ''url'')), t) \<and>
   (c \<noteq> [] \<longrightarrow>
      send_image d self image_url (Some c) seq_arg t = (Inl (RuntimeError (PyNameError ''url'')), t))"
  by (simp add: send_image_def send_media_def arg_or_def Let_def)

theorem channel_image_never_sent_witness:
  "msg_obj ping_callback = MessageObj ''Message'' channel_ping \<and>
   send_image (fst (class_Callback counter 0)) ping_callback ''https://example.org/a.png''
       (Some ''caption'') None idle_transport =
     (Inl (RuntimeError (PyNameError ''url'')), idle_transport)"
  using channel_image_never_sent [where self = ping_callback and k = "''Message''"
      and m = channel_ping and d = "fst (class_Callback counter 0)"
      and image_url = "''https://example.org/a.png''" and content_arg = "Some ''caption''"
      and seq_arg = None and t = idle_transport and c = "''caption''"]
  by (simp add: ping_callback_def)

text \<open>
  C9 (what the code does). \<^verbatim>\<open>send_image\<close> declares its caption with the
  default \<^verbatim>\<open>''\<close>, yet its first statement raises \<^verbatim>\<open>EmptyContentError\<close>
  (code 500) on an empty caption. So a call that leaves the caption out fails
  for every \<^verbatim>\<open>Callback\<close>, before \<^verbatim>\<open>_send_media\<close> is entered and with no
  request issued.
\<close>

theorem send_image_caption_omitted:
  "send_image d self image_url None seq_arg t = (Inl (EmptyContentError 500), t) \<and>
   send_image d self image_url (Some []) seq_arg t = (Inl (EmptyContentError 500), t)"
  by (simp add: send_image_def arg_or_def)

theorem send_image_caption_omitted_witness:
  "send_image (fst (class_Callback counter 0)) echo_callback ''https://example.org/a.png'' None None
       idle_transport =
     (Inl (EmptyContentError 500), idle_transport)"
  using send_image_caption_omitted [of "fst (class_Callback counter 0)" echo_callback
      "''https://example.org/a.png''" None idle_transport]
  by simp

text \<open>
  C10 (what the code does). The default sequence number of \<^verbatim>\<open>send\<close> is the
  one number \<open>send_seq d\<close> that was drawn when the class body ran. Two calls
  that leave \<^verbatim>\<open>seq\<close> out post with the same \<^verbatim>\<open>msg_seq\<close>; a call that passes
  \<^verbatim>\<open>seq\<close> posts with the number it passed.
\<close>

theorem send_default_seq_is_fixed:
  "msg_obj self = GroupMessageObj k g \<Longrightarrow> c1 \<noteq> [] \<Longrightarrow> c2 \<noteq> [] \<Longrightarrow>
   calls (snd (send d self c2 None (snd (send d self c1 None t)))) =
     calls t @ [post_group_message (group_openid g) 0 c1 (msg_id g) (send_seq d) None,
                post_group_message (group_openid g) 0 c2 (msg_id g) (send_seq d) None] \<and>
   calls (snd (send d self c1 (Some s) t)) =
     calls t @ [post_group_message (group_openid g) 0 c1 (msg_id g) s None]"
  by (simp add: send_def arg_or_def await_api_def Let_def split: prod.splits sum.splits)

theorem send_default_seq_is_fixed_witness:
  "msg_obj echo_callback = GroupMessageObj ''GroupMessage'' group_echo \<and>
   calls (snd (send (fst (class_Callback counter 0)) echo_callback ''second'' None
                 (snd (send (fst (class_Callback counter 0)) echo_callback ''first'' None idle_transport)))) =
     [post_group_message ''g1'' 0 ''first'' ''m2'' 0 None,
      post_group_message ''g1'' 0 ''second'' ''m2'' 0 None]"
  using send_default_seq_is_fixed [where self = echo_callback and k = "''GroupMessage''"
      and g = group_echo and ?c1.0 = "''first''" and ?c2.0 = "''second''"
      and d = "fst (class_Callback counter 0)" and t = idle_transport and s = 5]
  by (simp add: echo_callback_def group_echo_def idle_transport_def class_Callback_def
      randint_def counter_def)

subsection \<open>Parsing a command\<close>

lemma command_split:
  "attr_content (msg_obj callback) = Inr c \<Longrightarrow>
   command callback pc True =
     Inr (if str_startswith (str_strip c) pc
          then PList (parsed_arguments (str_strip c) pc)
          else PStr (str_strip c))"
  by (simp add: command_def Let_def parsed_arguments_def)

lemma command_unsplit:
  "attr_content (msg_obj callback) = Inr c \<Longrightarrow>
   command callback pc False = Inr (PStr (str_strip c))"
  by (simp add: command_def Let_def)

lemma Callback_init_content:
  assumes "Callback_init obj a = Inr callback"
  shows "\<exists>c. attr_content (msg_obj callback) = Inr c"
proof (cases obj)
  case (MessageObj k m)
  with assms show ?thesis
    by (cases "map_of TYPE_dict k") (auto simp add: Callback_init_def)
next
  case (GroupMessageObj k g)
  with assms show ?thesis
    by (cases "map_of TYPE_dict k") (auto simp add: Callback_init_def)
next
  case (C2CMessageObj k c)
  with assms show ?thesis
    by (cases "map_of TYPE_dict k") (auto simp add: Callback_init_def)
next
  case (OtherObj k)
  with assms show ?thesis
    by (simp add: Callback_init_def)
qed

text \<open>
  C3, as the spec states it, fails: with prefix \<^verbatim>\<open>"/"\<close> the content
  \<^verbatim>\<open>"/echo hello world"\<close> gives the list \<^verbatim>\<open>["echo", "hello", "world"]\<close>, not
  \<^verbatim>\<open>["hello", "world"]\<close>. Only the prefix is cut off; the command word is the
  first item of the list (the docstring: the list holds the command and its
  parameters).
\<close>

theorem command_slash_echo_counterexample:
  "Callback_init (GroupMessageObj ''GroupMessage'' group_echo) None = Inr echo_callback \<and>
   command echo_callback ''/'' True = Inr (PList [''echo'', ''hello'', ''world'']) \<and>
   command echo_callback ''/'' True \<noteq> Inr (PList [''hello'', ''world''])"
  by (simp add: Callback_init_def TYPE_dict_def echo_callback_def group_echo_def command_def
      str_strip_def str_split_def str_startswith_def isspace_def whitespace_def)

text \<open>
  C3, amended. For a \<^verbatim>\<open>Callback\<close> whose message content is
  \<^verbatim>\<open>"/echo hello world"\<close>: \<^verbatim>\<open>command("/", True)\<close> returns
  \<^verbatim>\<open>["echo", "hello", "world"]\<close>, \<^verbatim>\<open>command("/echo", True)\<close> returns
  \<^verbatim>\<open>["hello", "world"]\<close> and \<^verbatim>\<open>command("/", False)\<close> returns the string
  \<^verbatim>\<open>"/echo hello world"\<close>. For the content \<^verbatim>\<open>"hello"\<close>, \<^verbatim>\<open>command("/", ...)\<close>
  returns the string \<^verbatim>\<open>"hello"\<close>. In general, with splitting off the result
  is the trimmed content, whatever the prefix.
\<close>

theorem command_echo_hello:
  "(attr_content (msg_obj self) = Inr ''/echo hello world'' \<longrightarrow>
      command self ''/'' True = Inr (PList [''echo'', ''hello'', ''world'']) \<and>
      command self ''/echo'' True = Inr (PList [''hello'', ''world'']) \<and>
      command self ''/'' False = Inr (PStr ''/echo hello world'')) \<and>
   (attr_content (msg_obj self') = Inr ''hello'' \<longrightarrow>
      command self' ''/'' sep_params = Inr (PStr ''hello'')) \<and>
   (attr_content (msg_obj self'') = Inr c \<longrightarrow>
      command self'' prefix False = Inr (PStr (str_strip c)))"
  by (simp add: command_def str_strip_def str_split_def str_startswith_def isspace_def
      whitespace_def)

theorem command_echo_hello_witness:
  "attr_content (msg_obj echo_callback) = Inr ''/echo hello world'' \<and>
   command echo_callback ''/'' True = Inr (PList [''echo'', ''hello'', ''world'']) \<and>
   command echo_callback ''/echo'' True = Inr (PList [''hello'', ''world'']) \<and>
   command echo_callback ''/'' False = Inr (PStr ''/echo hello world'') \<and>
   attr_content (msg_obj hello_callback) = Inr ''hello'' \<and>
   command hello_callback ''/'' True = Inr (PStr ''hello'')"
  using command_echo_hello [of echo_callback hello_callback True echo_callback
      "''/echo hello world''" "''/''"]
  by (simp add: echo_callback_def group_echo_def hello_callback_def c2c_hello_def)

section \<open>Properties of the command router\<close>

subsection \<open>One handler entry\<close>

lemma py_or_params: "py_or (PList l) (PStr '''') = params_value l"
  by (simp add: py_or_def params_value_def)

lemma limitation_loop_member:
  "limitation_loop limitation callback = (msg_type callback \<in> set limitation)"
  by (induction limitation) auto

lemma command_loop_none:
  "attr_content (msg_obj callback) = Inr c \<Longrightarrow>
   \<forall>x\<in>set commands. \<not> str_startswith (str_strip c) (p @ x) \<Longrightarrow>
   command_loop callback func args kwargs p commands w = None"
  by (induction commands) (simp_all add: command_split)

lemma command_loop_first:
  assumes "attr_content (msg_obj callback) = Inr c"
    and "\<forall>y\<in>set cs. \<not> str_startswith (str_strip c) (p @ y)"
    and "str_startswith (str_strip c) (p @ x)"
  shows "command_loop callback func args kwargs p (cs @ x # cs') w =
     Some (func args (kwargs(''params'' \<mapsto> params_value (parsed_arguments (str_strip c) (p @ x)))) w)"
  using assms(2)
proof (induction cs)
  case Nil
  show ?case
    using assms(3) by (simp add: command_split [OF assms(1)] py_or_params fun_upd_def)
next
  case (Cons y cs)
  then show ?case
    by (simp add: command_split [OF assms(1)])
qed

lemma prefix_loop_none:
  "attr_content (msg_obj callback) = Inr c \<Longrightarrow>
   \<forall>p\<in>set prefixes. \<forall>x\<in>set commands. \<not> str_startswith (str_strip c) (p @ x) \<Longrightarrow>
   prefix_loop callback func args kwargs commands prefixes w = (Inr (PBool False), w)"
  by (induction prefixes) (simp_all add: command_loop_none)

lemma prefix_loop_first:
  assumes "attr_content (msg_obj callback) = Inr c"
    and "\<forall>q\<in>set ps. \<forall>y\<in>set (cs @ x # cs'). \<not> str_startswith (str_strip c) (q @ y)"
    and "\<forall>y\<in>set cs. \<not> str_startswith (str_strip c) (p @ y)"
    and "str_startswith (str_strip c) (p @ x)"
  shows "prefix_loop callback func args kwargs (cs @ x # cs') (ps @ p # ps') w =
     func args (kwargs(''params'' \<mapsto> params_value (parsed_arguments (str_strip c) (p @ x)))) w"
  using assms(2)
proof (induction ps)
  case Nil
  show ?case
    by (simp only: append_Nil prefix_loop.simps
        command_loop_first [OF assms(1) assms(3) assms(4)] option.case)
next
  case (Cons q ps)
  from Cons.prems have "command_loop callback func args kwargs q (cs @ x # cs') w = None"
    by (intro command_loop_none [OF assms(1)]) simp
  moreover from Cons.prems
  have "\<forall>q\<in>set ps. \<forall>y\<in>set (cs @ x # cs'). \<not> str_startswith (str_strip c) (q @ y)"
    by simp
  then have "prefix_loop callback func args kwargs (cs @ x # cs') (ps @ p # ps') w =
     func args (kwargs(''params'' \<mapsto> params_value (parsed_arguments (str_strip c) (p @ x)))) w"
    by (rule Cons.IH)
  ultimately show ?case
    by (simp only: append_Cons prefix_loop.simps option.case)
qed

lemma wrapper_callback:
  "py_or (dict_get kwargs ''msg_obj'') (dict_get kwargs ''callback'') = PCallback callback \<Longrightarrow>
   wrapper commands prefixes limitation func args kwargs w =
     (if msg_type callback \<in> set limitation then (Inr (PBool False), w)
      else prefix_loop callback func args kwargs commands prefixes w)"
  by (simp add: wrapper_def limitation_loop_member)

text \<open>
  C1, as the spec states it, fails where the parsed argument list is empty:
  the wrapper binds \<^verbatim>\<open>params\<close> to \<^verbatim>\<open>cmd or ''\<close>, so the user function
  receives the empty string, not the empty list. Here the entry is bound to
  \<^verbatim>\<open>"ping"\<close> with prefix \<^verbatim>\<open>"/"\<close>, the content is \<^verbatim>\<open>"/ping"\<close>, the parse
  \<^verbatim>\<open>command("/ping")\<close> is the list \<^verbatim>\<open>[]\<close>, and the user function records
  \<^verbatim>\<open>''\<close> as its \<^verbatim>\<open>params\<close>.
\<close>

theorem bind_empty_params_counterexample:
  "command ping_callback (''/'' @ ''ping'') True = Inr (PList []) \<and>
   fst (bind [''ping''] [''/''] [] record_params Session_init) []
       [''msg_obj'' \<mapsto> PCallback ping_callback] [] =
     (Inr PNone, [PStr '''']) \<and>
   PStr '''' \<noteq> PList []"
  by (simp add: command_def ping_callback_def channel_ping_def str_strip_def str_split_def
      str_startswith_def isspace_def whitespace_def bind_def wrapper_def py_or_def dict_get_def
      record_params_def)

text \<open>
  C1, amended. Let \<open>entry\<close> be the handler that \<^verbatim>\<open>Session.bind\<close> registers
  for \<open>commands\<close>, \<open>prefixes\<close>, \<open>limitation\<close> and the user function \<open>func\<close>,
  called with a \<^verbatim>\<open>Callback\<close> (as \<^verbatim>\<open>msg_obj\<close> or as \<^verbatim>\<open>callback\<close>) whose
  message has the content \<open>c\<close>.
  \<^item> If the audience tag is in \<open>limitation\<close>, the entry returns \<^verbatim>\<open>False\<close> and
    the state is untouched, whatever \<open>func\<close> is: \<open>func\<close> was not invoked.
  \<^item> Otherwise, if the trimmed content starts with no \<open>prefix + command\<close>, the
    entry returns \<^verbatim>\<open>False\<close>, again with the state untouched.
  \<^item> Otherwise let \<open>p\<close> be the first prefix, in the order of \<open>prefixes\<close>, for
    which some command matches, and \<open>x\<close> the first command, in the order of
    \<open>commands\<close>, that matches with \<open>p\<close>. The entry is one invocation of \<open>func\<close>
    with the arguments it was given and \<^verbatim>\<open>params\<close> bound to the argument list
    parsed after \<open>p + x\<close>, or to the empty string when that list is empty; the
    entry returns what \<open>func\<close> returns (or raises).
\<close>

theorem bind_entry_dispatch:
  assumes k: "py_or (dict_get kwargs ''msg_obj'') (dict_get kwargs ''callback'') = PCallback callback"
    and c: "attr_content (msg_obj callback) = Inr c"
    and e: "entry = fst (bind commands prefixes limitation func session)"
  shows "(msg_type callback \<in> set limitation \<longrightarrow> entry args kwargs w = (Inr (PBool False), w)) \<and>
    (msg_type callback \<notin> set limitation \<and>
     (\<forall>p\<in>set prefixes. \<forall>x\<in>set commands. \<not> str_startswith (str_strip c) (p @ x))
       \<longrightarrow> entry args kwargs w = (Inr (PBool False), w)) \<and>
    (msg_type callback \<notin> set limitation \<and>
     prefixes = ps @ p # ps' \<and> commands = cs @ x # cs' \<and>
     (\<forall>q\<in>set ps. \<forall>y\<in>set commands. \<not> str_startswith (str_strip c) (q @ y)) \<and>
     (\<forall>y\<in>set cs. \<not> str_startswith (str_strip c) (p @ y)) \<and>
     str_startswith (str_strip c) (p @ x)
       \<longrightarrow> entry args kwargs w =
             func args (kwargs(''params'' \<mapsto> params_value (parsed_arguments (str_strip c) (p @ x)))) w)"
proof -
  have w: "entry args kwargs w =
     (if msg_type callback \<in> set limitation then (Inr (PBool False), w)
      else prefix_loop callback func args kwargs commands prefixes w)"
    unfolding e bind_def fst_conv by (rule wrapper_callback [OF k])
  have 1: "msg_type callback \<in> set limitation \<longrightarrow> entry args kwargs w = (Inr (PBool False), w)"
    by (simp add: w)
  have 2: "msg_type callback \<notin> set limitation \<and>
     (\<forall>p\<in>set prefixes. \<forall>x\<in>set commands. \<not> str_startswith (str_strip c) (p @ x))
       \<longrightarrow> entry args kwargs w = (Inr (PBool False), w)"
  proof (intro impI, elim conjE)
    assume a: "msg_type callback \<notin> set limitation"
      "\<forall>p\<in>set prefixes. \<forall>x\<in>set commands. \<not> str_startswith (str_strip c) (p @ x)"
    show "entry args kwargs w = (Inr (PBool False), w)"
      unfolding w using a(1) prefix_loop_none [OF c a(2)] by simp
  qed
  have 3: "msg_type callback \<notin> set limitation \<and>
     prefixes = ps @ p # ps' \<and> commands = cs @ x # cs' \<and>
     (\<forall>q\<in>set ps. \<forall>y\<in>set commands. \<not> str_startswith (str_strip c) (q @ y)) \<and>
     (\<forall>y\<in>set cs. \<not> str_startswith (str_strip c) (p @ y)) \<and>
     str_startswith (str_strip c) (p @ x)
       \<longrightarrow> entry args kwargs w =
             func args (kwargs(''params'' \<mapsto> params_value (parsed_arguments (str_strip c) (p @ x)))) w"
  proof (intro impI, elim conjE)
    assume a: "msg_type callback \<notin> set limitation" "prefixes = ps @ p # ps'"
      "commands = cs @ x # cs'"
      "\<forall>q\<in>set ps. \<forall>y\<in>set commands. \<not> str_startswith (str_strip c) (q @ y)"
      "\<forall>y\<in>set cs. \<not> str_startswith (str_strip c) (p @ y)"
      "str_startswith (str_strip c) (p @ x)"
    from a(4) have b: "\<forall>q\<in>set ps. \<forall>y\<in>set (cs @ x # cs'). \<not> str_startswith (str_strip c) (q @ y)"
      unfolding a(3) .
    show "entry args kwargs w =
             func args (kwargs(''params'' \<mapsto> params_value (parsed_arguments (str_strip c) (p @ x)))) w"
      unfolding w a(2) a(3) using a(1) prefix_loop_first [OF c b a(5) a(6)] by simp
  qed
  from 1 2 3 show ?thesis by blast
qed

theorem bind_entry_dispatch_witness:
  "py_or (dict_get [''msg_obj'' \<mapsto> PCallback ping_callback] ''msg_obj'')
         (dict_get [''msg_obj'' \<mapsto> PCallback ping_callback] ''callback'') = PCallback ping_callback \<and>
   attr_content (msg_obj ping_callback) = Inr ''/ping'' \<and>
   msg_type ping_callback \<notin> set [''group''] \<and>
   str_startswith (str_strip ''/ping'') (''/'' @ ''ping'') \<and>
   fst (bind [''pong'', ''ping''] [''!'', ''/''] [''group''] record_params Session_init) []
       [''msg_obj'' \<mapsto> PCallback ping_callback] [] =
     (Inr PNone, [PStr ''''])"
  using bind_entry_dispatch [of "[''msg_obj'' \<mapsto> PCallback ping_callback]" ping_callback "''/ping''"
      "fst (bind [''pong'', ''ping''] [''!'', ''/''] [''group''] record_params Session_init)"
      "[''pong'', ''ping'']" "[''!'', ''/'']" "[''group'']" record_params Session_init
      "[]" "[]" "[''!'']" "''/''" "[]" "[''pong'']" "''ping''" "[]"]
  by (simp add: py_or_def dict_get_def ping_callback_def channel_ping_def str_strip_def
      str_split_def str_startswith_def isspace_def whitespace_def record_params_def
      params_value_def parsed_arguments_def)

subsection \<open>Dispatch\<close>

lemma reduce_loop_skip:
  "none_truthy pre callback w = Some w1 \<Longrightarrow>
   reduce_loop (pre @ rest) callback w = reduce_loop rest callback w1"
  by (induction pre callback w rule: none_truthy.induct)
     (auto split: prod.splits sum.splits if_splits)

lemma reduce_loop_first_truthy:
  assumes "none_truthy pre callback w = Some w1"
    and "func [] [''msg_obj'' \<mapsto> PCallback callback] w1 = (Inr v, w2)"
    and "truthy v"
  shows "reduce_loop (pre @ Callable func # post) callback w = (Inr True, w2)"
  using assms(2) assms(3) by (simp add: reduce_loop_skip [OF assms(1)])

lemma reduce_loop_none_truthy:
  assumes "none_truthy func_list callback w = Some w'"
  shows "reduce_loop func_list callback w = (Inr False, w')"
  using reduce_loop_skip [OF assms, of "[]"] by simp

lemma reduce_loop_raises:
  assumes "none_truthy pre callback w = Some w1"
    and "func [] [''msg_obj'' \<mapsto> PCallback callback] w1 = (Inl e, w2)"
  shows "reduce_loop (pre @ Callable func # post) callback w = (Inl e, w2)"
  using assms(2) by (simp add: reduce_loop_skip [OF assms(1)])

lemma get_bind_bind:
  "get_bind (snd (bind commands prefixes limitation func s)) =
     get_bind s @ [wrapper commands prefixes limitation func]"
  by (simp add: get_bind_def bind_def)

lemma get_bind_Session_init: "get_bind Session_init = []"
  by (simp add: get_bind_def Session_init_def)

lemma strip_pong: "str_strip ''/pong'' = ''/pong''"
  by (simp add: str_strip_def isspace_def whitespace_def)

lemma ping_entry_silent:
  assumes "attr_content (msg_obj callback) = Inr ''/pong''"
  shows "wrapper [''ping''] default_prefixes limitation func [] [''msg_obj'' \<mapsto> PCallback callback] w =
     (Inr (PBool False), w)"
proof -
  have k: "py_or (dict_get [''msg_obj'' \<mapsto> PCallback callback] ''msg_obj'')
      (dict_get [''msg_obj'' \<mapsto> PCallback callback] ''callback'') = PCallback callback"
    by (simp add: py_or_def dict_get_def)
  have n: "\<forall>p\<in>set default_prefixes. \<forall>x\<in>set [''ping'']. \<not> str_startswith (str_strip ''/pong'') (p @ x)"
    by (simp add: strip_pong default_prefixes_def str_startswith_def)
  show ?thesis
    by (simp add: wrapper_callback [OF k] prefix_loop_none [OF assms n])
qed

lemma pong_entry_runs:
  assumes "attr_content (msg_obj callback) = Inr ''/pong''"
  shows "wrapper [''pong''] default_prefixes default_limitation func [] [''msg_obj'' \<mapsto> PCallback callback] w =
     func [] [''msg_obj'' \<mapsto> PCallback callback, ''params'' \<mapsto> PStr ''''] w"
proof -
  have k: "py_or (dict_get [''msg_obj'' \<mapsto> PCallback callback] ''msg_obj'')
      (dict_get [''msg_obj'' \<mapsto> PCallback callback] ''callback'') = PCallback callback"
    by (simp add: py_or_def dict_get_def)
  have m: "str_startswith (str_strip ''/pong'') (''/'' @ ''pong'')"
    by (simp add: strip_pong str_startswith_def)
  have v: "params_value (parsed_arguments (str_strip ''/pong'') (''/'' @ ''pong'')) = PStr ''''"
    by (simp add: strip_pong params_value_def parsed_arguments_def str_split_def str_strip_def)
  have "prefix_loop callback func [] [''msg_obj'' \<mapsto> PCallback callback] ([] @ ''pong'' # []) ([] @ ''/'' # ['''']) w =
     func [] ([''msg_obj'' \<mapsto> PCallback callback](''params'' \<mapsto>
        params_value (parsed_arguments (str_strip ''/pong'') (''/'' @ ''pong'')))) w"
    by (rule prefix_loop_first [OF assms _ _ m]) simp_all
  then show ?thesis
    unfolding wrapper_callback [OF k] v by (simp add: default_prefixes_def default_limitation_def)
qed

text \<open>
  C2. \<^verbatim>\<open>reduce\<close> tries the handlers in the order of the list (for a
  \<^verbatim>\<open>Session\<close>: the order of registration), each on the state its
  predecessor left.
  \<^item> If the handlers before \<open>func\<close> all return an outcome that is not true
    and \<open>func\<close> returns a true outcome, \<^verbatim>\<open>reduce\<close> returns \<^verbatim>\<open>True\<close> and
    the final state is the one \<open>func\<close> left: whatever handlers \<open>post\<close> come
    after \<open>func\<close>, none of them was tried.
  \<^item> If every handler returns an outcome that is not true, \<^verbatim>\<open>reduce\<close>
    returns \<^verbatim>\<open>False\<close>.
  \<^item> A \<^verbatim>\<open>Session\<close> stands for the list of its handlers, to which each
    \<^verbatim>\<open>bind\<close> appends; an explicit \<^verbatim>\<open>callback\<close> argument takes the place of
    \<^verbatim>\<open>self\<close>.
  \<^item> With handlers registered for \<^verbatim>\<open>"ping"\<close> and then \<^verbatim>\<open>"pong"\<close> (default
    prefixes, no limitation) and the content \<^verbatim>\<open>"/pong"\<close>, \<^verbatim>\<open>reduce\<close> is one
    invocation of the second user function, on the initial state, and its
    result the truth value of what that function returns; the first user
    function \<open>on_ping\<close> does not occur in the result.

  An exception of a handler leaves \<^verbatim>\<open>reduce\<close> as it is
  (\<open>reduce_loop_raises\<close>); the claim speaks of handlers that return.
\<close>

theorem reduce_first_truthy_wins:
  "(none_truthy pre self w = Some w1 \<and>
    func [] [''msg_obj'' \<mapsto> PCallback self] w1 = (Inr v, w2) \<and> truthy v \<longrightarrow>
      reduce self (ListArg (pre @ Callable func # post)) None w = (Inr True, w2)) \<and>
   (none_truthy func_list self w = Some w' \<longrightarrow>
      reduce self (ListArg func_list) None w = (Inr False, w')) \<and>
   reduce self (SessionArg s) None w = reduce self (ListArg (map Callable (get_bind s))) None w \<and>
   reduce self session (Some callback) w = reduce callback session None w \<and>
   get_bind (snd (bind commands' prefixes' limitation' func' (snd (bind commands prefixes limitation func0 s)))) =
     get_bind s @ [wrapper commands prefixes limitation func0, wrapper commands' prefixes' limitation' func'] \<and>
   (attr_content (msg_obj self) = Inr ''/pong'' \<longrightarrow>
      reduce self
        (SessionArg (snd (bind [''pong''] default_prefixes default_limitation on_pong
                       (snd (bind [''ping''] default_prefixes default_limitation on_ping Session_init)))))
        None w =
      (case on_pong [] [''msg_obj'' \<mapsto> PCallback self, ''params'' \<mapsto> PStr ''''] w of
         (Inl e, w') \<Rightarrow> (Inl e, w')
       | (Inr r, w') \<Rightarrow> (Inr (truthy r), w')))"
proof -
  have 1: "none_truthy pre self w = Some w1 \<and>
    func [] [''msg_obj'' \<mapsto> PCallback self] w1 = (Inr v, w2) \<and> truthy v \<longrightarrow>
      reduce self (ListArg (pre @ Callable func # post)) None w = (Inr True, w2)"
    by (simp add: reduce_def reduce_loop_first_truthy)
  have 2: "none_truthy func_list self w = Some w' \<longrightarrow>
      reduce self (ListArg func_list) None w = (Inr False, w')"
    by (simp add: reduce_def reduce_loop_none_truthy)
  have 3: "reduce self (SessionArg s) None w = reduce self (ListArg (map Callable (get_bind s))) None w"
    by (simp add: reduce_def)
  have 4: "reduce self session (Some callback) w = reduce callback session None w"
    by (simp add: reduce_def)
  have 5: "get_bind (snd (bind commands' prefixes' limitation' func' (snd (bind commands prefixes limitation func0 s)))) =
     get_bind s @ [wrapper commands prefixes limitation func0, wrapper commands' prefixes' limitation' func']"
    by (simp add: get_bind_bind)
  have 6: "attr_content (msg_obj self) = Inr ''/pong'' \<longrightarrow>
      reduce self
        (SessionArg (snd (bind [''pong''] default_prefixes default_limitation on_pong
                       (snd (bind [''ping''] default_prefixes default_limitation on_ping Session_init)))))
        None w =
      (case on_pong [] [''msg_obj'' \<mapsto> PCallback self, ''params'' \<mapsto> PStr ''''] w of
         (Inl e, w') \<Rightarrow> (Inl e, w')
       | (Inr r, w') \<Rightarrow> (Inr (truthy r), w'))"
  proof
    assume a: "attr_content (msg_obj self) = Inr ''/pong''"
    show "reduce self
        (SessionArg (snd (bind [''pong''] default_prefixes default_limitation on_pong
                       (snd (bind [''ping''] default_prefixes default_limitation on_ping Session_init)))))
        None w =
      (case on_pong [] [''msg_obj'' \<mapsto> PCallback self, ''params'' \<mapsto> PStr ''''] w of
         (Inl e, w') \<Rightarrow> (Inl e, w')
       | (Inr r, w') \<Rightarrow> (Inr (truthy r), w'))"
      by (simp add: reduce_def get_bind_bind get_bind_Session_init
          ping_entry_silent [OF a] pong_entry_runs [OF a] split: prod.splits sum.splits)
  qed
  from 1 2 3 4 5 6 show ?thesis by blast
qed

theorem reduce_first_truthy_wins_witness:
  "none_truthy [Callable (wrapper [''ping''] default_prefixes default_limitation (record_name ''ping''))]
      pong_callback [] = Some [] \<and>
   reduce pong_callback
      (ListArg ([Callable (wrapper [''ping''] default_prefixes default_limitation (record_name ''ping''))] @
                Callable (wrapper [''pong''] default_prefixes default_limitation (record_name ''pong'')) #
                [Callable (record_name ''late'')]))
      None [] = (Inr True, [''pong'']) \<and>
   reduce pong_callback
      (ListArg [Callable (wrapper [''ping''] default_prefixes default_limitation (record_name ''ping''))])
      None [] = (Inr False, []) \<and>
   attr_content (msg_obj pong_callback) = Inr ''/pong'' \<and>
   reduce pong_callback
      (SessionArg (snd (bind [''pong''] default_prefixes default_limitation (record_name ''pong'')
                     (snd (bind [''ping''] default_prefixes default_limitation (record_name ''ping'') Session_init)))))
      None [] = (Inr True, [''pong''])"
proof -
  have a: "attr_content (msg_obj pong_callback) = Inr ''/pong''"
    by (simp add: pong_callback_def group_pong_def)
  have n: "none_truthy [Callable (wrapper [''ping''] default_prefixes default_limitation (record_name ''ping''))]
      pong_callback [] = Some []"
    by (simp add: ping_entry_silent [OF a])
  have p: "wrapper [''pong''] default_prefixes default_limitation (record_name ''pong'') []
      [''msg_obj'' \<mapsto> PCallback pong_callback] [] = (Inr (PBool True), [''pong''])"
    by (simp add: pong_entry_runs [OF a] record_name_def)
  note t = reduce_first_truthy_wins [where self = pong_callback and w = "[]" and on_pong = "record_name ''pong''"
      and on_ping = "record_name ''ping''"
      and pre = "[Callable (wrapper [''ping''] default_prefixes default_limitation (record_name ''ping''))]"
      and ?w1.0 = "[]" and func = "wrapper [''pong''] default_prefixes default_limitation (record_name ''pong'')"
      and v = "PBool True" and ?w2.0 = "[''pong'']" and post = "[Callable (record_name ''late'')]"
      and func_list = "[Callable (wrapper [''ping''] default_prefixes default_limitation (record_name ''ping''))]"
      and w' = "[]"]
  from t [THEN conjunct1] n p
  have r1: "reduce pong_callback
      (ListArg ([Callable (wrapper [''ping''] default_prefixes default_limitation (record_name ''ping''))] @
                Callable (wrapper [''pong''] default_prefixes default_limitation (record_name ''pong'')) #
                [Callable (record_name ''late'')]))
      None [] = (Inr True, [''pong''])"
    by simp
  from t [THEN conjunct2, THEN conjunct1] n
  have r2: "reduce pong_callback
      (ListArg [Callable (wrapper [''ping''] default_prefixes default_limitation (record_name ''ping''))])
      None [] = (Inr False, [])"
    by simp
  from t [THEN conjunct2, THEN conjunct2, THEN conjunct2, THEN conjunct2, THEN conjunct2] a
  have r6: "reduce pong_callback
      (SessionArg (snd (bind [''pong''] default_prefixes default_limitation (record_name ''pong'')
                     (snd (bind [''ping''] default_prefixes default_limitation (record_name ''ping'') Session_init)))))
      None [] = (Inr True, [''pong''])"
    by (simp add: record_name_def)
  from n r1 r2 a r6 show ?thesis
    by (intro conjI)
qed

section \<open>Properties of the user store\<close>

lemma int_column_one: "int_column (Some ''1'') = Inr (Some 1)"
  by (simp add: int_column_def digit_def)

lemma get_userinfo_found:
  assumes "tables db (msg_type callback @ ''_table'') = Some tb"
    and "select_rows (user_openid_of callback) tb = r # rest"
  shows "get_userinfo callback db =
     (Inr (Some (BaseUser_of_query (extra_column tb, r))),
      db\<lparr>statements := statements db @ [SELECT (msg_type callback @ ''_table'') (user_openid_of callback)]\<rparr>)"
  using assms by (simp add: get_userinfo_def fetchone_def Let_def)

lemma get_userinfo_absent:
  assumes "tables db (msg_type callback @ ''_table'') = Some tb"
    and "select_rows (user_openid_of callback) tb = []"
  shows "get_userinfo callback db =
     (Inr None,
      db\<lparr>statements := statements db @ [SELECT (msg_type callback @ ''_table'') (user_openid_of callback)]\<rparr>)"
  using assms by (simp add: get_userinfo_def fetchone_def Let_def)

lemma get_userinfo_no_table:
  assumes "tables db (msg_type callback @ ''_table'') = None"
  shows "get_userinfo callback db =
     (Inl (RuntimeError (MySQLError ''Table does not exist'')),
      db\<lparr>statements := statements db @ [SELECT (msg_type callback @ ''_table'') (user_openid_of callback)]\<rparr>)"
  using assms by (simp add: get_userinfo_def Let_def)

lemma insert_userinfo_found:
  assumes "tables db (msg_type callback @ ''_table'') = Some tb"
    and "select_rows (user_openid_of callback) tb = r # rest"
  shows "insert_userinfo callback db =
     (Inr (BaseUser_of_query (extra_column tb, r)),
      db\<lparr>statements := statements db @ [SELECT (msg_type callback @ ''_table'') (user_openid_of callback)]\<rparr>)"
  by (simp add: insert_userinfo_def get_userinfo_found [OF assms])

lemma insert_row_new:
  assumes "extra_column tb = Some x"
    and "select_rows (Some oid) tb = []"
    and "x \<noteq> ''openid''" and "x \<noteq> ''message_number''"
  shows "insert_row ([''openid'', ''message_number''] @ (if coc \<noteq> [] then [x] else []))
           ([Some oid, Some ''1''] @ (if coc \<noteq> [] then [Some coc] else [])) tb =
         Inr (tb\<lparr>rows := rows tb @
                 [\<lparr>r_userid = auto_increment tb, r_openid = Some oid, r_message_number = Some 1,
                   r_extra = (if coc \<noteq> [] then Some coc else None)\<rparr>],
               auto_increment := auto_increment tb + 1\<rparr>)"
  using assms by (simp add: insert_row_def int_column_one Let_def)

lemma select_rows_appended:
  assumes "select_rows (Some oid) tb = []"
  shows "select_rows (Some oid)
           (tb\<lparr>rows := rows tb @ [\<lparr>r_userid = i, r_openid = Some oid, r_message_number = n, r_extra = e\<rparr>],
               auto_increment := j\<rparr>) =
         [\<lparr>r_userid = i, r_openid = Some oid, r_message_number = n, r_extra = e\<rparr>]"
  using assms by (simp add: select_rows_def)

lemma inserts_select: "inserts (db\<lparr>statements := statements db @ [SELECT n v]\<rparr>) = inserts db"
  by (simp add: inserts_def)

lemma insert_userinfo_absent:
  assumes v: "(msg_obj callback = MessageObj ''Message'' m \<and> msg_type callback = ''channel'' \<and>
               oid = author_id m \<and> coc = channel_id m) \<or>
              (msg_obj callback = GroupMessageObj ''GroupMessage'' g \<and> msg_type callback = ''group'' \<and>
               oid = member_openid g \<and> coc = group_openid g)"
    and t: "tables db (msg_type callback @ ''_table'') = Some tb"
    and x: "extra_column tb = Some (msg_type callback @ ''_id'')"
    and n: "select_rows (Some oid) tb = []"
  shows "insert_userinfo callback db =
     (Inr \<lparr>userid = 0, openid = Some oid, message_number = Some 1,
           user_channel_id = (if msg_type callback = ''channel'' then Some coc else None),
           user_group_id = (if msg_type callback = ''group'' then Some coc else None)\<rparr>,
      \<lparr>tables = (tables db)(msg_type callback @ ''_table'' \<mapsto>
           tb\<lparr>rows := rows tb @
                 [\<lparr>r_userid = auto_increment tb, r_openid = Some oid, r_message_number = Some 1,
                   r_extra = (if coc \<noteq> [] then Some coc else None)\<rparr>],
               auto_increment := auto_increment tb + 1\<rparr>),
       statements = statements db @
         [SELECT (msg_type callback @ ''_table'') (Some oid),
          INSERT (msg_type callback @ ''_table'')
            ([''openid'', ''message_number''] @ (if coc \<noteq> [] then [msg_type callback @ ''_id''] else []))
            ([Some oid, Some ''1''] @ (if coc \<noteq> [] then [Some coc] else [])),
          COMMIT]\<rparr>)"
  using v
proof (elim disjE conjE)
  assume a: "msg_obj callback = MessageObj ''Message'' m" "msg_type callback = ''channel''"
    "oid = author_id m" "coc = channel_id m"
  have u: "user_openid_of callback = Some oid" using a by (simp add: user_openid_of_def)
  have g: "get_userinfo callback db = (Inr None,
      db\<lparr>statements := statements db @ [SELECT (msg_type callback @ ''_table'') (user_openid_of callback)]\<rparr>)"
    using t n by (intro get_userinfo_absent) (simp_all add: u)
  show ?thesis
  proof (cases "coc = []")
    case True
    with t x n a show ?thesis
      by (simp add: insert_userinfo_def g DB_TYPE_def u Let_def insert_row_def int_column_one no_rows_def)
  next
    case False
    with t x n a show ?thesis
      by (simp add: insert_userinfo_def g DB_TYPE_def u Let_def insert_row_def int_column_one no_rows_def)
  qed
next
  assume a: "msg_obj callback = GroupMessageObj ''GroupMessage'' g" "msg_type callback = ''group''"
    "oid = member_openid g" "coc = group_openid g"
  have u: "user_openid_of callback = Some oid" using a by (simp add: user_openid_of_def)
  have g: "get_userinfo callback db = (Inr None,
      db\<lparr>statements := statements db @ [SELECT (msg_type callback @ ''_table'') (user_openid_of callback)]\<rparr>)"
    using t n by (intro get_userinfo_absent) (simp_all add: u)
  show ?thesis
  proof (cases "coc = []")
    case True
    with t x n a show ?thesis
      by (simp add: insert_userinfo_def g DB_TYPE_def u Let_def insert_row_def int_column_one no_rows_def)
  next
    case False
    with t x n a show ?thesis
      by (simp add: insert_userinfo_def g DB_TYPE_def u Let_def insert_row_def int_column_one no_rows_def)
  qed
qed


lemma insert_userinfo_again:
  assumes v: "(msg_obj callback = MessageObj ''Message'' m \<and> msg_type callback = ''channel'' \<and>
               oid = author_id m \<and> coc = channel_id m) \<or>
              (msg_obj callback = GroupMessageObj ''GroupMessage'' g \<and> msg_type callback = ''group'' \<and>
               oid = member_openid g \<and> coc = group_openid g)"
    and t: "tables db (msg_type callback @ ''_table'') = Some tb"
    and x: "extra_column tb = Some (msg_type callback @ ''_id'')"
    and n: "select_rows (Some oid) tb = []"
    and d: "db1 = snd (insert_userinfo callback db)"
  shows "insert_userinfo callback db1 =
     (Inr \<lparr>userid = auto_increment tb, openid = Some oid, message_number = Some 1,
           user_channel_id = (if msg_type callback = ''channel'' \<and> coc \<noteq> [] then Some coc else None),
           user_group_id = (if msg_type callback = ''group'' \<and> coc \<noteq> [] then Some coc else None)\<rparr>,
      db1\<lparr>statements := statements db1 @ [SELECT (msg_type callback @ ''_table'') (Some oid)]\<rparr>)"
proof -
  let ?new = "\<lparr>r_userid = auto_increment tb, r_openid = Some oid, r_message_number = Some 1,
                   r_extra = (if coc \<noteq> [] then Some coc else None)\<rparr>"
  let ?tb1 = "tb\<lparr>rows := rows tb @ [?new], auto_increment := auto_increment tb + 1\<rparr>"
  have u: "user_openid_of callback = Some oid"
    using v by (auto simp add: user_openid_of_def)
  have t1: "tables db1 (msg_type callback @ ''_table'') = Some ?tb1"
    unfolding d insert_userinfo_absent [OF v t x n] by simp
  have s1: "select_rows (user_openid_of callback) ?tb1 = ?new # []"
    unfolding u by (rule select_rows_appended [OF n])
  have b: "BaseUser_of_query (extra_column ?tb1, ?new) =
     \<lparr>userid = auto_increment tb, openid = Some oid, message_number = Some 1,
           user_channel_id = (if msg_type callback = ''channel'' \<and> coc \<noteq> [] then Some coc else None),
           user_group_id = (if msg_type callback = ''group'' \<and> coc \<noteq> [] then Some coc else None)\<rparr>"
    using v x by auto
  show ?thesis
    unfolding insert_userinfo_found [OF t1 s1] b u ..
qed

lemma fresh_store_tables:
  "tables fresh_store ''channel_table'' = Some \<lparr>extra_column = Some ''channel_id'', rows = [], auto_increment = 1\<rparr>"
  "tables fresh_store ''group_table'' = Some \<lparr>extra_column = Some ''group_id'', rows = [], auto_increment = 1\<rparr>"
  "tables fresh_store ''c2c_table'' = Some \<lparr>extra_column = None, rows = [], auto_increment = 1\<rparr>"
  "statements fresh_store = []"
  by (simp_all add: fresh_store_def empty_store_def init_channel_database_def init_group_database_def
      init_c2c_database_def init_database_def INTERFACE_def)

text \<open>
  For a \<^verbatim>\<open>C2CMessage\<close> the second component of the \<^verbatim>\<open>DB_TYPE\<close> entry is the
  string \<^verbatim>\<open>'None'\<close>, not a function: when no row exists yet, the call
  \<^verbatim>\<open>coc_func(callback.msg_obj)\<close> raises \<^verbatim>\<open>TypeError\<close>, which leaves as
  \<^verbatim>\<open>RuntimeError\<close>, and nothing is inserted.
\<close>

lemma insert_userinfo_c2c:
  assumes "msg_obj callback = C2CMessageObj ''C2CMessage'' c" and "msg_type callback = ''c2c''"
    and "tables db ''c2c_table'' = Some tb"
    and "select_rows (Some (user_openid c)) tb = []"
  shows "insert_userinfo callback db =
     (Inl (RuntimeError PyTypeError),
      db\<lparr>statements := statements db @ [SELECT ''c2c_table'' (Some (user_openid c))]\<rparr>)"
proof -
  have u: "user_openid_of callback = Some (user_openid c)"
    using assms(1) by (simp add: user_openid_of_def)
  have g: "get_userinfo callback db = (Inr None,
      db\<lparr>statements := statements db @ [SELECT (msg_type callback @ ''_table'') (user_openid_of callback)]\<rparr>)"
    using assms by (intro get_userinfo_absent) (simp_all add: u)
  show ?thesis
    using assms by (simp add: insert_userinfo_def g DB_TYPE_def u)
qed

text \<open>
  C4, as the spec states it, fails in its last part: two successive calls for
  the same open id do not return identical snapshots. The first call, which
  inserts, returns a \<^verbatim>\<open>BaseUser\<close> whose \<^verbatim>\<open>userid\<close> is the default 0 (the
  docstring: the returned object has no \<^verbatim>\<open>userid\<close>); the second returns the
  stored row, whose \<^verbatim>\<open>userid\<close> is the key the server assigned. Here the
  store is fresh and the caller a channel \<^verbatim>\<open>Callback\<close>.
\<close>

theorem insert_userinfo_twice_counterexample:
  "fst (insert_userinfo ping_callback fresh_store) =
     Inr \<lparr>userid = 0, openid = Some ''u1'', message_number = Some 1,
          user_channel_id = Some ''c1'', user_group_id = None\<rparr> \<and>
   fst (insert_userinfo ping_callback (snd (insert_userinfo ping_callback fresh_store))) =
     Inr \<lparr>userid = 1, openid = Some ''u1'', message_number = Some 1,
          user_channel_id = Some ''c1'', user_group_id = None\<rparr> \<and>
   fst (insert_userinfo ping_callback fresh_store) \<noteq>
   fst (insert_userinfo ping_callback (snd (insert_userinfo ping_callback fresh_store)))"
proof -
  have v: "(msg_obj ping_callback = MessageObj ''Message'' channel_ping \<and> msg_type ping_callback = ''channel'' \<and>
               ''u1'' = author_id channel_ping \<and> ''c1'' = channel_id channel_ping) \<or>
              (msg_obj ping_callback = GroupMessageObj ''GroupMessage'' group_echo \<and> msg_type ping_callback = ''group'' \<and>
               ''u1'' = member_openid group_echo \<and> ''c1'' = group_openid group_echo)"
    by (simp add: ping_callback_def channel_ping_def)
  have t: "tables fresh_store (msg_type ping_callback @ ''_table'') =
      Some \<lparr>extra_column = Some ''channel_id'', rows = [], auto_increment = 1\<rparr>"
    by (simp add: ping_callback_def fresh_store_tables)
  have x: "extra_column \<lparr>extra_column = Some ''channel_id'', rows = [], auto_increment = 1\<rparr> =
      Some (msg_type ping_callback @ ''_id'')"
    by (simp add: ping_callback_def)
  have n: "select_rows (Some ''u1'') \<lparr>extra_column = Some ''channel_id'', rows = [], auto_increment = 1\<rparr> = []"
    by (simp add: select_rows_def)
  have f1: "fst (insert_userinfo ping_callback fresh_store) =
     Inr \<lparr>userid = 0, openid = Some ''u1'', message_number = Some 1,
          user_channel_id = Some ''c1'', user_group_id = None\<rparr>"
    by (simp only: insert_userinfo_absent [OF v t x n] fst_conv) (simp add: ping_callback_def)
  have f2: "fst (insert_userinfo ping_callback (snd (insert_userinfo ping_callback fresh_store))) =
     Inr \<lparr>userid = 1, openid = Some ''u1'', message_number = Some 1,
          user_channel_id = Some ''c1'', user_group_id = None\<rparr>"
    by (simp only: insert_userinfo_again [OF v t x n refl] fst_conv) (simp add: ping_callback_def)
  show ?thesis
    by (simp add: f1 f2)
qed

text \<open>
  C4, amended. Let \<open>callback\<close> wrap an instance of the class \<^verbatim>\<open>Message\<close> or
  of the class \<^verbatim>\<open>GroupMessage\<close>, with open id \<open>oid\<close> and context id \<open>coc\<close> (the channel id
  or the group open id), and let the table of its audience exist with the
  columns \<^verbatim>\<open>_init_database\<close> gives it.
  \<^item> If the table has a row for \<open>oid\<close>, \<^verbatim>\<open>insert_userinfo\<close> returns the
    snapshot of the first such row; no \<^verbatim>\<open>INSERT\<close> is executed and the tables
    are unchanged.
  \<^item> If it has none, \<^verbatim>\<open>insert_userinfo\<close> executes exactly one \<^verbatim>\<open>INSERT\<close>,
    which appends a row with message counter 1 under the next auto-increment
    key, and returns a snapshot with \<^verbatim>\<open>userid = 0\<close>, the open id, counter 1
    and the context id. A second call then executes no further \<^verbatim>\<open>INSERT\<close>,
    leaves the tables unchanged and returns the stored row: the same open id
    and counter, \<^verbatim>\<open>userid\<close> the key of the row, and the context id when it is
    not empty (an empty one was not stored and reads back as \<^verbatim>\<open>None\<close>).
\<close>

theorem insert_userinfo_read_or_create:
  assumes v: "(msg_obj callback = MessageObj ''Message'' m \<and> msg_type callback = ''channel'' \<and>
               oid = author_id m \<and> coc = channel_id m) \<or>
              (msg_obj callback = GroupMessageObj ''GroupMessage'' g \<and> msg_type callback = ''group'' \<and>
               oid = member_openid g \<and> coc = group_openid g)"
    and t: "tables db (msg_type callback @ ''_table'') = Some tb"
    and x: "extra_column tb = Some (msg_type callback @ ''_id'')"
  shows "(select_rows (Some oid) tb = r # rest \<longrightarrow>
      fst (insert_userinfo callback db) = Inr (BaseUser_of_query (extra_column tb, r)) \<and>
      inserts (snd (insert_userinfo callback db)) = inserts db \<and>
      tables (snd (insert_userinfo callback db)) = tables db) \<and>
   (select_rows (Some oid) tb = [] \<longrightarrow>
      fst (insert_userinfo callback db) =
        Inr \<lparr>userid = 0, openid = Some oid, message_number = Some 1,
             user_channel_id = (if msg_type callback = ''channel'' then Some coc else None),
             user_group_id = (if msg_type callback = ''group'' then Some coc else None)\<rparr> \<and>
      inserts (snd (insert_userinfo callback db)) = inserts db + 1 \<and>
      tables (snd (insert_userinfo callback db)) =
        (tables db)(msg_type callback @ ''_table'' \<mapsto>
           tb\<lparr>rows := rows tb @
                 [\<lparr>r_userid = auto_increment tb, r_openid = Some oid, r_message_number = Some 1,
                   r_extra = (if coc \<noteq> [] then Some coc else None)\<rparr>],
               auto_increment := auto_increment tb + 1\<rparr>) \<and>
      fst (insert_userinfo callback (snd (insert_userinfo callback db))) =
        Inr \<lparr>userid = auto_increment tb, openid = Some oid, message_number = Some 1,
             user_channel_id = (if msg_type callback = ''channel'' \<and> coc \<noteq> [] then Some coc else None),
             user_group_id = (if msg_type callback = ''group'' \<and> coc \<noteq> [] then Some coc else None)\<rparr> \<and>
      inserts (snd (insert_userinfo callback (snd (insert_userinfo callback db)))) = inserts db + 1 \<and>
      tables (snd (insert_userinfo callback (snd (insert_userinfo callback db)))) =
        tables (snd (insert_userinfo callback db)))"
proof -
  have u: "user_openid_of callback = Some oid"
    using v by (auto simp add: user_openid_of_def)
  have 1: "select_rows (Some oid) tb = r # rest \<longrightarrow>
      fst (insert_userinfo callback db) = Inr (BaseUser_of_query (extra_column tb, r)) \<and>
      inserts (snd (insert_userinfo callback db)) = inserts db \<and>
      tables (snd (insert_userinfo callback db)) = tables db"
  proof
    assume "select_rows (Some oid) tb = r # rest"
    then have "select_rows (user_openid_of callback) tb = r # rest"
      by (simp add: u)
    from insert_userinfo_found [OF t this]
    show "fst (insert_userinfo callback db) = Inr (BaseUser_of_query (extra_column tb, r)) \<and>
      inserts (snd (insert_userinfo callback db)) = inserts db \<and>
      tables (snd (insert_userinfo callback db)) = tables db"
      by (simp add: inserts_def)
  qed
  have 2: "select_rows (Some oid) tb = [] \<longrightarrow>
      fst (insert_userinfo callback db) =
        Inr \<lparr>userid = 0, openid = Some oid, message_number = Some 1,
             user_channel_id = (if msg_type callback = ''channel'' then Some coc else None),
             user_group_id = (if msg_type callback = ''group'' then Some coc else None)\<rparr> \<and>
      inserts (snd (insert_userinfo callback db)) = inserts db + 1 \<and>
      tables (snd (insert_userinfo callback db)) =
        (tables db)(msg_type callback @ ''_table'' \<mapsto>
           tb\<lparr>rows := rows tb @
                 [\<lparr>r_userid = auto_increment tb, r_openid = Some oid, r_message_number = Some 1,
                   r_extra = (if coc \<noteq> [] then Some coc else None)\<rparr>],
               auto_increment := auto_increment tb + 1\<rparr>) \<and>
      fst (insert_userinfo callback (snd (insert_userinfo callback db))) =
        Inr \<lparr>userid = auto_increment tb, openid = Some oid, message_number = Some 1,
             user_channel_id = (if msg_type callback = ''channel'' \<and> coc \<noteq> [] then Some coc else None),
             user_group_id = (if msg_type callback = ''group'' \<and> coc \<noteq> [] then Some coc else None)\<rparr> \<and>
      inserts (snd (insert_userinfo callback (snd (insert_userinfo callback db)))) = inserts db + 1 \<and>
      tables (snd (insert_userinfo callback (snd (insert_userinfo callback db)))) =
        tables (snd (insert_userinfo callback db))"
  proof
    assume n: "select_rows (Some oid) tb = []"
    note f = insert_userinfo_absent [OF v t x n]
    note s = insert_userinfo_again [OF v t x n refl]
    have i: "inserts (snd (insert_userinfo callback db)) = inserts db + 1"
      unfolding f by (simp add: inserts_def)
    show "fst (insert_userinfo callback db) =
        Inr \<lparr>userid = 0, openid = Some oid, message_number = Some 1,
             user_channel_id = (if msg_type callback = ''channel'' then Some coc else None),
             user_group_id = (if msg_type callback = ''group'' then Some coc else None)\<rparr> \<and>
      inserts (snd (insert_userinfo callback db)) = inserts db + 1 \<and>
      tables (snd (insert_userinfo callback db)) =
        (tables db)(msg_type callback @ ''_table'' \<mapsto>
           tb\<lparr>rows := rows tb @
                 [\<lparr>r_userid = auto_increment tb, r_openid = Some oid, r_message_number = Some 1,
                   r_extra = (if coc \<noteq> [] then Some coc else None)\<rparr>],
               auto_increment := auto_increment tb + 1\<rparr>) \<and>
      fst (insert_userinfo callback (snd (insert_userinfo callback db))) =
        Inr \<lparr>userid = auto_increment tb, openid = Some oid, message_number = Some 1,
             user_channel_id = (if msg_type callback = ''channel'' \<and> coc \<noteq> [] then Some coc else None),
             user_group_id = (if msg_type callback = ''group'' \<and> coc \<noteq> [] then Some coc else None)\<rparr> \<and>
      inserts (snd (insert_userinfo callback (snd (insert_userinfo callback db)))) = inserts db + 1 \<and>
      tables (snd (insert_userinfo callback (snd (insert_userinfo callback db)))) =
        tables (snd (insert_userinfo callback db))"
    proof (intro conjI)
      show "fst (insert_userinfo callback db) =
        Inr \<lparr>userid = 0, openid = Some oid, message_number = Some 1,
             user_channel_id = (if msg_type callback = ''channel'' then Some coc else None),
             user_group_id = (if msg_type callback = ''group'' then Some coc else None)\<rparr>"
        by (simp add: f)
      show "inserts (snd (insert_userinfo callback db)) = inserts db + 1"
        by (rule i)
      show "tables (snd (insert_userinfo callback db)) =
        (tables db)(msg_type callback @ ''_table'' \<mapsto>
           tb\<lparr>rows := rows tb @
                 [\<lparr>r_userid = auto_increment tb, r_openid = Some oid, r_message_number = Some 1,
                   r_extra = (if coc \<noteq> [] then Some coc else None)\<rparr>],
               auto_increment := auto_increment tb + 1\<rparr>)"
        by (simp add: f)
      show "fst (insert_userinfo callback (snd (insert_userinfo callback db))) =
        Inr \<lparr>userid = auto_increment tb, openid = Some oid, message_number = Some 1,
             user_channel_id = (if msg_type callback = ''channel'' \<and> coc \<noteq> [] then Some coc else None),
             user_group_id = (if msg_type callback = ''group'' \<and> coc \<noteq> [] then Some coc else None)\<rparr>"
        by (simp only: s fst_conv)
      show "inserts (snd (insert_userinfo callback (snd (insert_userinfo callback db)))) = inserts db + 1"
        by (simp only: s snd_conv inserts_select i)
      show "tables (snd (insert_userinfo callback (snd (insert_userinfo callback db)))) =
        tables (snd (insert_userinfo callback db))"
        by (simp only: s snd_conv) simp
    qed
  qed
  from 1 2 show ?thesis by blast
qed

theorem insert_userinfo_read_or_create_witness:
  "tables fresh_store (msg_type ping_callback @ ''_table'') =
      Some \<lparr>extra_column = Some ''channel_id'', rows = [], auto_increment = 1\<rparr> \<and>
   select_rows (Some ''u1'') \<lparr>extra_column = Some ''channel_id'', rows = [], auto_increment = 1\<rparr> = [] \<and>
   fst (insert_userinfo ping_callback fresh_store) =
     Inr \<lparr>userid = 0, openid = Some ''u1'', message_number = Some 1,
          user_channel_id = Some ''c1'', user_group_id = None\<rparr> \<and>
   inserts (snd (insert_userinfo ping_callback fresh_store)) = 1 \<and>
   fst (insert_userinfo ping_callback (snd (insert_userinfo ping_callback fresh_store))) =
     Inr \<lparr>userid = 1, openid = Some ''u1'', message_number = Some 1,
          user_channel_id = Some ''c1'', user_group_id = None\<rparr> \<and>
   inserts (snd (insert_userinfo ping_callback (snd (insert_userinfo ping_callback fresh_store)))) = 1"
proof -
  have v: "(msg_obj ping_callback = MessageObj ''Message'' channel_ping \<and> msg_type ping_callback = ''channel'' \<and>
               ''u1'' = author_id channel_ping \<and> ''c1'' = channel_id channel_ping) \<or>
              (msg_obj ping_callback = GroupMessageObj ''GroupMessage'' group_echo \<and> msg_type ping_callback = ''group'' \<and>
               ''u1'' = member_openid group_echo \<and> ''c1'' = group_openid group_echo)"
    by (simp add: ping_callback_def channel_ping_def)
  have t: "tables fresh_store (msg_type ping_callback @ ''_table'') =
      Some \<lparr>extra_column = Some ''channel_id'', rows = [], auto_increment = 1\<rparr>"
    by (simp add: ping_callback_def fresh_store_tables)
  have x: "extra_column \<lparr>extra_column = Some ''channel_id'', rows = [], auto_increment = 1\<rparr> =
      Some (msg_type ping_callback @ ''_id'')"
    by (simp add: ping_callback_def)
  have n: "select_rows (Some ''u1'') \<lparr>extra_column = Some ''channel_id'', rows = [], auto_increment = 1\<rparr> = []"
    by (simp add: select_rows_def)
  have i: "inserts fresh_store = 0"
    by (simp add: inserts_def fresh_store_tables)
  have m: "msg_type ping_callback = ''channel''"
    by (simp add: ping_callback_def)
  from insert_userinfo_read_or_create [OF v t x, THEN conjunct2, THEN mp, OF n] t n show ?thesis
    by (simp add: i m)
qed

end
